theory Spec2Isabelle
  imports Complex_Main
begin

section \<open>Numbers and vectors\<close>

text \<open>
  The controller is TypeScript; its numbers are modelled as real numbers, so
  arithmetic is exact (no rounding, no NaN, no infinities).  The functions of the
  JavaScript \<^verbatim>\<open>Math\<close> object and of the three.js vector classes that the
  controller calls are written out here with their documented meaning.
\<close>

definition js_sign :: "real \<Rightarrow> real" where
  \<comment> \<open>\<^verbatim>\<open>Math.sign\<close>\<close>
  "js_sign v = (if v > 0 then 1 else if v < 0 then - 1 else 0)"

definition js_hypot :: "real \<Rightarrow> real \<Rightarrow> real" where
  \<comment> \<open>\<^verbatim>\<open>Math.hypot(a, b)\<close>\<close>
  "js_hypot a b = sqrt (a * a + b * b)"

definition js_trunc :: "real \<Rightarrow> int" where
  \<comment> \<open>rounding toward zero\<close>
  "js_trunc q = (if 0 \<le> q then \<lfloor>q\<rfloor> else \<lceil>q\<rceil>)"

definition js_rem :: "real \<Rightarrow> real \<Rightarrow> real" where
  \<comment> \<open>the \<^verbatim>\<open>%\<close> operator on numbers: the remainder has the sign of the dividend\<close>
  "js_rem a b = a - b * of_int (js_trunc (a / b))"

definition js_atan2 :: "real \<Rightarrow> real \<Rightarrow> real" where
  \<comment> \<open>\<^verbatim>\<open>Math.atan2(y, x)\<close>, the angle of the point \<open>(x, y)\<close>; 0 at the origin\<close>
  "js_atan2 b a =
     (if a > 0 then arctan (b / a)
      else if a < 0 then (if b \<ge> 0 then arctan (b / a) + pi else arctan (b / a) - pi)
      else if b > 0 then pi / 2
      else if b < 0 then - (pi / 2)
      else 0)"

record vec3 =
  vx :: real
  vy :: real
  vz :: real

definition vec :: "real \<Rightarrow> real \<Rightarrow> real \<Rightarrow> vec3" where
  "vec a b c = \<lparr>vx = a, vy = b, vz = c\<rparr>"

definition vadd :: "vec3 \<Rightarrow> vec3 \<Rightarrow> vec3" where
  "vadd a b = vec (vx a + vx b) (vy a + vy b) (vz a + vz b)"

definition vsub :: "vec3 \<Rightarrow> vec3 \<Rightarrow> vec3" where
  "vsub a b = vec (vx a - vx b) (vy a - vy b) (vz a - vz b)"

definition multiplyScalar :: "vec3 \<Rightarrow> real \<Rightarrow> vec3" where
  "multiplyScalar a s = vec (vx a * s) (vy a * s) (vz a * s)"

definition addScaledVector :: "vec3 \<Rightarrow> vec3 \<Rightarrow> real \<Rightarrow> vec3" where
  "addScaledVector a b s = vec (vx a + vx b * s) (vy a + vy b * s) (vz a + vz b * s)"

definition lengthSq :: "vec3 \<Rightarrow> real" where
  "lengthSq a = vx a * vx a + vy a * vy a + vz a * vz a"

definition vlength :: "vec3 \<Rightarrow> real" where
  "vlength a = sqrt (lengthSq a)"

definition normalize :: "vec3 \<Rightarrow> vec3" where
  \<comment> \<open>three.js: \<^verbatim>\<open>divideScalar(this.length() || 1)\<close>, so the zero vector stays zero\<close>
  "normalize a =
     (let l = (if vlength a = 0 then 1 else vlength a)
      in vec (vx a / l) (vy a / l) (vz a / l))"

definition crossVectors :: "vec3 \<Rightarrow> vec3 \<Rightarrow> vec3" where
  "crossVectors a b =
     vec (vy a * vz b - vz a * vy b) (vz a * vx b - vx a * vz b) (vx a * vy b - vy a * vx b)"

definition distanceTo :: "vec3 \<Rightarrow> vec3 \<Rightarrow> real" where
  "distanceTo a b = vlength (vsub a b)"

definition set_y :: "vec3 \<Rightarrow> real \<Rightarrow> vec3" where
  \<comment> \<open>the assignment \<^verbatim>\<open>v.y = c\<close>\<close>
  "set_y a c = a\<lparr>vy := c\<rparr>"

definition upVec :: vec3 where
  "upVec = vec 0 1 0"


section \<open>Velocity blending\<close>

text \<open>
  \<^verbatim>\<open>moveTowards\<close> is a closure inside the frame callback; the acceleration and
  deceleration props and the frame's \<open>delta\<close> that it captures are its first arguments.
\<close>

definition moveTowards :: "real \<Rightarrow> real \<Rightarrow> real \<Rightarrow> real \<Rightarrow> real \<Rightarrow> real" where
  "moveTowards acceleration deceleration delta current target =
     (let increasing = \<bar>target\<bar> > \<bar>current\<bar>;
          rate = (if increasing then acceleration else deceleration);
          maxDelta = rate * delta;
          deltaV = target - current
      in if \<bar>deltaV\<bar> \<le> maxDelta then target
         else current + js_sign deltaV * maxDelta)"

definition blend_rate :: "real \<Rightarrow> real \<Rightarrow> real \<Rightarrow> real \<Rightarrow> real" where
  \<comment> \<open>the \<^verbatim>\<open>rate\<close> local of \<^verbatim>\<open>moveTowards\<close>\<close>
  "blend_rate acceleration deceleration current target =
     (if \<bar>target\<bar> > \<bar>current\<bar> then acceleration else deceleration)"


section \<open>Controller data\<close>

text \<open>The props of the \<^verbatim>\<open>FPSControls\<close> component (debug props left out).\<close>

record props =
  prop_speed :: real
  eyeHeight :: real
  capsuleRadius :: real
  capsuleHeight :: real
  bobEnabled :: bool
  minStepFrequency :: real
  maxStepFrequency :: real
  verticalBobAmplitude :: real
  lateralBobAmplitude :: real
  bobSmoothing :: real
  speedAmplitudeInfluence :: real
  onFootstep :: bool  \<comment> \<open>whether a footstep callback was passed\<close>
  acceleration :: real
  deceleration :: real
  stepSmoothing :: real
  verticalHarmonic :: real
  strafeLateralFactor :: real
  bobFollowSmoothing :: real
  idleReturnSmoothing :: real

definition default_props :: props where
  "default_props =
     \<lparr>prop_speed = 2, eyeHeight = 16 / 10, capsuleRadius = 3 / 10, capsuleHeight = 1,
      bobEnabled = True, minStepFrequency = 1 / 10, maxStepFrequency = 8 / 10,
      verticalBobAmplitude = 15 / 1000, lateralBobAmplitude = 1 / 100, bobSmoothing = 8,
      speedAmplitudeInfluence = 1, onFootstep = True, acceleration = 18, deceleration = 22,
      stepSmoothing = 6, verticalHarmonic = 15 / 100, strafeLateralFactor = 9 / 10,
      bobFollowSmoothing = 18, idleReturnSmoothing = 6\<rparr>"

datatype foot = Left | Right

record bob =
  phase :: real
  intensity :: real
  smoothedHz :: real
  smoothedVertical :: real
  smoothedLateral :: real

definition initial_bob :: bob where
  "initial_bob =
     \<lparr>phase = 0, intensity = 0, smoothedHz = 0, smoothedVertical = 0, smoothedLateral = 0\<rparr>"

text \<open>The part of the physics engine's rigid body that the controller reads and writes.\<close>

record rigid_body =
  translation :: vec3
  linvel :: vec3

record override =
  timeLeft :: real
  duration :: real
  speed :: real
  dir :: vec3
  lockLook :: bool
  lookAt :: "vec3 option"
  lookSlerp :: "real option"
  moveDelayLeft :: real

datatype euler_order = XYZ | YXZ | ZXY | ZYX | YZX | XZY

text \<open>The camera object: its position and its Euler rotation.\<close>

record camera =
  cam_position :: vec3
  rotation_x :: real
  rotation_y :: real
  rotation_z :: real
  rotation_order :: euler_order

text \<open>
  The three.js operations on the camera's orientation are library code.  They are
  parameters of the model: \<open>getWorldDirection\<close> is
  \<^verbatim>\<open>camera.getWorldDirection\<close>, and \<open>slerpLookAt cam target k\<close> stands for the three
  calls \<^verbatim>\<open>lookMat.lookAt(camera.position, target, upVec)\<close>,
  \<^verbatim>\<open>targetQuat.setFromRotationMatrix(lookMat)\<close> and
  \<^verbatim>\<open>camera.quaternion.slerp(targetQuat, k)\<close>, returning the camera they leave.
\<close>

record three =
  getWorldDirection :: "camera \<Rightarrow> vec3"
  slerpLookAt :: "camera \<Rightarrow> vec3 \<Rightarrow> real \<Rightarrow> camera"

record input_store =
  axes_x :: real
  axes_y :: real
  look_dx :: real
  look_dy :: real
  touchMode :: bool

text \<open>
  Modelled from the spec: the module \<^verbatim>\<open>inputStore\<close> is not among the sources.  Its
  movement axes are a stored pair that \<^verbatim>\<open>setMoveAxes\<close> overwrites, and its look delta
  is a one-shot value that \<^verbatim>\<open>consumeLookDelta\<close> returns and clears.
\<close>

definition getMoveAxes :: "input_store \<Rightarrow> real \<times> real" where
  "getMoveAxes inp = (axes_x inp, axes_y inp)"

definition setMoveAxes :: "real \<Rightarrow> real \<Rightarrow> input_store \<Rightarrow> input_store" where
  "setMoveAxes a b inp = inp\<lparr>axes_x := a, axes_y := b\<rparr>"

definition isTouchMode :: "input_store \<Rightarrow> bool" where
  "isTouchMode inp = touchMode inp"

definition consumeLookDelta :: "input_store \<Rightarrow> (real \<times> real) \<times> input_store" where
  "consumeLookDelta inp = ((look_dx inp, look_dy inp), inp\<lparr>look_dx := 0, look_dy := 0\<rparr>)"

text \<open>The refs and React state of one mounted component, with the camera and the input store.\<close>

record fps_state =
  bodyRef :: "rigid_body option"
  overrideRef :: "override option"
  bobRef :: bob
  plcEnabled :: bool
  camera :: camera
  inputStore :: input_store

record move_detail =
  d_durationSec :: "real option"
  d_distance :: "real option"
  d_lockLook :: "bool option"
  d_lookAt :: "(real \<times> real \<times> real) option"
  d_lookSlerp :: "real option"
  d_moveDelaySec :: "real option"

record teleport_detail =
  d_x :: "real option"
  d_y :: "real option"
  d_z :: "real option"
  d_keepY :: "bool option"
  d_yaw :: "real option"

definition opt_chain :: "'d option \<Rightarrow> ('d \<Rightarrow> 'a option) \<Rightarrow> 'a option" where
  \<comment> \<open>\<^verbatim>\<open>detail?.field\<close>\<close>
  "opt_chain detail field = (case detail of None \<Rightarrow> None | Some d \<Rightarrow> field d)"

definition nullish :: "'a option \<Rightarrow> 'a \<Rightarrow> 'a" where
  \<comment> \<open>\<^verbatim>\<open>value ?? fallback\<close>\<close>
  "nullish v fallback = (case v of None \<Rightarrow> fallback | Some a \<Rightarrow> a)"


section \<open>Event handlers\<close>

definition flat_view_dir :: "three \<Rightarrow> camera \<Rightarrow> vec3" where
  \<comment> \<open>the handler's \<^verbatim>\<open>dir\<close>: the view direction, flattened, \<open>-Z\<close> when that is
      almost zero, normalised\<close>
  "flat_view_dir lib cam =
     (let dir0 = set_y (getWorldDirection lib cam) 0;
          dir1 = (if lengthSq dir0 < 1 / 1000000 then vec 0 0 (- 1) else dir0)
      in normalize dir1)"

definition scripted_move_handler :: "three \<Rightarrow> move_detail option \<Rightarrow> fps_state \<Rightarrow> fps_state" where
  "scripted_move_handler lib detail st =
     (let durationSec = max (5 / 100) (nullish (opt_chain detail d_durationSec) (12 / 10));
          distance = max (5 / 100) (nullish (opt_chain detail d_distance) (15 / 10));
          lockLook' = nullish (opt_chain detail d_lockLook) True;
          dir' = flat_view_dir lib (camera st)
      in st\<lparr>overrideRef :=
               Some \<lparr>timeLeft = durationSec,
                     duration = durationSec,
                     speed = distance / durationSec,
                     dir = dir',
                     lockLook = lockLook',
                     lookAt = map_option (\<lambda>(a, b, c). vec a b c) (opt_chain detail d_lookAt),
                     lookSlerp = Some (nullish (opt_chain detail d_lookSlerp) 6),
                     moveDelayLeft = max 0 (nullish (opt_chain detail d_moveDelaySec) (35 / 100))\<rparr>,
             plcEnabled := (if lockLook' then False else plcEnabled st),
             inputStore := setMoveAxes 0 0 (inputStore st)\<rparr>)"

definition teleport_handler :: "teleport_detail option \<Rightarrow> fps_state \<Rightarrow> fps_state" where
  "teleport_handler detail st =
     (case bodyRef st of
        None \<Rightarrow> st
      | Some body \<Rightarrow>
          let t = translation body;
              nx = nullish (opt_chain detail d_x) (vx t);
              ny = (if opt_chain detail d_keepY = Some True then vy t
                    else nullish (opt_chain detail d_y) (vy t));
              nz = nullish (opt_chain detail d_z) (vz t);
              body' = body\<lparr>linvel := vec 0 0 0, translation := vec nx ny nz\<rparr>;
              cam = camera st;
              cam' = (case opt_chain detail d_yaw of
                        Some yaw \<Rightarrow> cam\<lparr>rotation_order := YXZ, rotation_y := yaw\<rparr>
                      | None \<Rightarrow> cam)
          in st\<lparr>overrideRef := None,
                 bodyRef := Some body',
                 camera := cam',
                 plcEnabled := True,
                 inputStore := setMoveAxes 0 0 (inputStore st)\<rparr>)"


section \<open>The frame callback\<close>

definition canMove :: "override option \<Rightarrow> bool" where
  "canMove ov = (case ov of Some ov' \<Rightarrow> moveDelayLeft ov' \<le> 0 | None \<Rightarrow> True)"

definition hasAxesMove :: "input_store \<Rightarrow> bool" where
  "hasAxesMove inp =
     (case getMoveAxes inp of (ax, ay) \<Rightarrow> \<bar>ax\<bar> > 1 / 1000 \<or> \<bar>ay\<bar> > 1 / 1000)"

definition isMoving :: "override option \<Rightarrow> input_store \<Rightarrow> bool" where
  "isMoving ov inp = (case ov of Some _ \<Rightarrow> canMove ov | None \<Rightarrow> hasAxesMove inp)"

definition forward_of :: "three \<Rightarrow> camera \<Rightarrow> vec3" where
  \<comment> \<open>\<^verbatim>\<open>worldDir\<close>: the camera direction, flattened and normalised\<close>
  "forward_of lib cam = normalize (set_y (getWorldDirection lib cam) 0)"

definition right_of :: "vec3 \<Rightarrow> vec3" where
  "right_of worldDir = normalize (crossVectors worldDir upVec)"

definition move_dir :: "override option \<Rightarrow> input_store \<Rightarrow> vec3 \<Rightarrow> vec3 \<Rightarrow> vec3" where
  "move_dir ov inp worldDir right =
     (case ov of
        Some ov' \<Rightarrow> (if canMove ov then vadd (vec 0 0 0) (dir ov') else vec 0 0 0)
      | None \<Rightarrow>
          (if hasAxesMove inp
           then vadd (vadd (vec 0 0 0) (multiplyScalar worldDir (axes_y inp)))
                  (multiplyScalar right (axes_x inp))
           else vec 0 0 0))"

definition look_phase :: "three \<Rightarrow> real \<Rightarrow> override option \<Rightarrow> camera \<Rightarrow> camera" where
  \<comment> \<open>turning toward the look target, only before the scripted movement starts\<close>
  "look_phase lib delta ov cam =
     (case ov of
        None \<Rightarrow> cam
      | Some ov' \<Rightarrow>
          (case lookAt ov' of
             None \<Rightarrow> cam
           | Some target \<Rightarrow>
               if lockLook ov' \<and> \<not> canMove ov
               then slerpLookAt lib cam target (min 1 (max 0 (nullish (lookSlerp ov') 6 * delta)))
               else cam))"

definition desired_velocity :: "props \<Rightarrow> override option \<Rightarrow> input_store \<Rightarrow> vec3 \<Rightarrow> real \<times> real" where
  "desired_velocity p ov inp d =
     (if isMoving ov inp \<and> lengthSq d > 0
      then let d' = normalize d;
               baseSpeed = (case ov of Some ov' \<Rightarrow> speed ov' | None \<Rightarrow> prop_speed p)
           in (vx d' * baseSpeed, vz d' * baseSpeed)
      else (0, 0))"

definition command_velocity :: "override option \<Rightarrow> real \<Rightarrow> real \<Rightarrow> rigid_body \<Rightarrow> rigid_body" where
  \<comment> \<open>the \<^verbatim>\<open>setLinvel\<close> calls; the vertical component is handed back unchanged\<close>
  "command_velocity ov newVX newVZ body =
     (let lin = linvel body
      in case ov of
           Some _ \<Rightarrow>
             (if canMove ov then body\<lparr>linvel := vec newVX (vy lin) newVZ\<rparr>
              else body\<lparr>linvel := vec 0 (vy lin) 0\<rparr>)
         | None \<Rightarrow> body\<lparr>linvel := vec newVX (vy lin) newVZ\<rparr>)"

definition advance_override :: "real \<Rightarrow> override \<Rightarrow> override option" where
  \<comment> \<open>the scripted sequence timer; \<open>None\<close> once the time is used up\<close>
  "advance_override delta ov =
     (let ov1 = (if moveDelayLeft ov > 0
                 then ov\<lparr>moveDelayLeft := max 0 (moveDelayLeft ov - delta)\<rparr> else ov);
          ov2 = ov1\<lparr>timeLeft := timeLeft ov1 - delta\<rparr>
      in if timeLeft ov2 \<le> 0 then None else Some ov2)"

definition crossed :: "real \<Rightarrow> real \<Rightarrow> real \<Rightarrow> bool" where
  \<comment> \<open>the closure \<^verbatim>\<open>crossed(thr)\<close> with its captured \<^verbatim>\<open>from\<close> and \<^verbatim>\<open>to\<close>\<close>
  "crossed from to thr =
     ((from < thr \<and> to \<ge> thr) \<or> (from > to \<and> (from < thr \<or> to \<ge> thr)))"

definition footsteps :: "real \<Rightarrow> real \<Rightarrow> foot list" where
  "footsteps from to =
     (if crossed from to 0 then [Right] else []) @ (if crossed from to pi then [Left] else [])"

definition normalized_speed :: "props \<Rightarrow> real \<Rightarrow> real \<Rightarrow> real" where
  "normalized_speed p newVX newVZ = min 1 (js_hypot newVX newVZ / max (1 / 1000) (prop_speed p))"

definition bob_intensity :: "props \<Rightarrow> real \<Rightarrow> real \<Rightarrow> real \<Rightarrow> bob \<Rightarrow> real" where
  "bob_intensity p delta newVX newVZ b =
     intensity b
       + (normalized_speed p newVX newVZ - intensity b) * min 1 (bobSmoothing p * delta)"

definition bob_stepHz :: "props \<Rightarrow> real \<Rightarrow> real \<Rightarrow> real \<Rightarrow> bob \<Rightarrow> real" where
  "bob_stepHz p delta newVX newVZ b =
     (let targetHz = minStepFrequency p
            + (maxStepFrequency p - minStepFrequency p) * normalized_speed p newVX newVZ
      in smoothedHz b + (targetHz - smoothedHz b) * min 1 (stepSmoothing p * delta))"

definition bob_step ::
  "props \<Rightarrow> real \<Rightarrow> real \<Rightarrow> real \<Rightarrow> vec3 \<Rightarrow> bob \<Rightarrow> bob \<times> real \<times> real \<times> foot list" where
  \<comment> \<open>the head-bob block: the new bob state, \<^verbatim>\<open>vertical\<close>, \<^verbatim>\<open>lateral\<close> and the
      footstep callbacks made\<close>
  "bob_step p delta newVX newVZ worldDir b =
     (if bobEnabled p then
        let speed2D = js_hypot newVX newVZ;
            normalizedSpeed = normalized_speed p newVX newVZ;
            intensity' = bob_intensity p delta newVX newVZ b;
            stepHz = bob_stepHz p delta newVX newVZ b;
            advance = intensity' > 1 / 1000 \<and> stepHz > 1 / 10000;
            prevPhase = phase b;
            phase' = (if advance then js_rem (phase b + stepHz * 2 * pi * delta) (pi * 2)
                      else phase b);
            feet = (if advance \<and> onFootstep p then footsteps prevPhase phase' else []);
            ampScale = 1 - speedAmplitudeInfluence p + speedAmplitudeInfluence p * normalizedSpeed;
            phi = phase';
            shapedVertical = sin (phi * 2) + verticalHarmonic p * sin (phi * 4);
            vertical = shapedVertical * verticalBobAmplitude p * intensity' * ampScale;
            forwardAlign =
              (if speed2D > 1 / 10000
               then \<bar>newVX / speed2D * vx worldDir + newVZ / speed2D * vz worldDir\<bar> else 0);
            lateralWeight = strafeLateralFactor p + (1 - strafeLateralFactor p) * forwardAlign;
            lateral = sin phi * lateralBobAmplitude p * lateralWeight * intensity' * ampScale
        in (b\<lparr>intensity := intensity', smoothedHz := stepHz, phase := phase'\<rparr>,
            vertical, lateral, feet)
      else (b, 0, 0, []))"

definition bob_follow :: "props \<Rightarrow> real \<Rightarrow> bool \<Rightarrow> real \<Rightarrow> real \<Rightarrow> bob \<Rightarrow> bob" where
  "bob_follow p delta moving vertical lateral b =
     (let targetVertical = (if moving then vertical else 0);
          targetLateral = (if moving then lateral else 0);
          follow = (if moving then bobFollowSmoothing p else idleReturnSmoothing p);
          k = min 1 (max 0 (follow * delta))
      in b\<lparr>smoothedVertical := smoothedVertical b + (targetVertical - smoothedVertical b) * k,
            smoothedLateral := smoothedLateral b + (targetLateral - smoothedLateral b) * k\<rparr>)"

definition touch_look :: "override option \<Rightarrow> camera \<Rightarrow> input_store \<Rightarrow> camera \<times> input_store" where
  \<comment> \<open>the touch look deltas, read only in touch mode and with no override left\<close>
  "touch_look ov cam inp =
     (if isTouchMode inp \<and> ov = None then
        (case consumeLookDelta inp of
           ((dx, dy), inp') \<Rightarrow>
             if dx \<noteq> 0 \<or> dy \<noteq> 0 then
               let sens = 25 / 10000;
                   lim = pi / 2 - 1 / 100;
                   ry = rotation_y cam - dx * sens;
                   rx = rotation_x cam - dy * sens
               in (cam\<lparr>rotation_order := YXZ, rotation_y := ry,
                        rotation_x := max (- lim) (min lim rx)\<rparr>, inp')
             else (cam, inp'))
      else (cam, inp))"

definition place_camera :: "props \<Rightarrow> rigid_body \<Rightarrow> vec3 \<Rightarrow> bob \<Rightarrow> camera \<Rightarrow> camera" where
  "place_camera p body right b cam =
     (let baseOffset = capsuleHeight p / 2 + capsuleRadius p;
          t = translation body;
          pos = vec (vx t)
                  (vy t - baseOffset + eyeHeight p + (if bobEnabled p then smoothedVertical b else 0))
                  (vz t);
          pos' = (if bobEnabled p then addScaledVector pos right (smoothedLateral b) else pos)
      in cam\<lparr>cam_position := pos'\<rparr>)"

definition frame_desired :: "three \<Rightarrow> props \<Rightarrow> fps_state \<Rightarrow> real \<times> real" where
  \<comment> \<open>\<^verbatim>\<open>desiredX\<close> and \<^verbatim>\<open>desiredZ\<close> of a frame\<close>
  "frame_desired lib p st =
     (let inp = inputStore st;
          ov = overrideRef st;
          worldDir = forward_of lib (camera st);
          right = right_of worldDir;
          d = move_dir ov inp worldDir right
      in desired_velocity p ov inp d)"

definition blended_velocity :: "three \<Rightarrow> props \<Rightarrow> real \<Rightarrow> fps_state \<Rightarrow> rigid_body \<Rightarrow> real \<times> real" where
  \<comment> \<open>\<^verbatim>\<open>newVX\<close> and \<^verbatim>\<open>newVZ\<close> of a frame\<close>
  "blended_velocity lib p delta st body =
     (let desired = frame_desired lib p st;
          lin = linvel body
      in (moveTowards (acceleration p) (deceleration p) delta (vx lin) (fst desired),
          moveTowards (acceleration p) (deceleration p) delta (vz lin) (snd desired)))"

definition tick :: "three \<Rightarrow> props \<Rightarrow> real \<Rightarrow> fps_state \<Rightarrow> fps_state \<times> foot list" where
  "tick lib p delta st =
     (case bodyRef st of
        None \<Rightarrow> (st, [])
      | Some body \<Rightarrow>
          let inp = inputStore st;
              ov = overrideRef st;
              moving = isMoving ov inp;
              worldDir = forward_of lib (camera st);
              right = right_of worldDir;
              cam1 = look_phase lib delta ov (camera st);
              newV = blended_velocity lib p delta st body;
              body' = command_velocity ov (fst newV) (snd newV) body;
              ov' = (case ov of None \<Rightarrow> None | Some cur \<Rightarrow> advance_override delta cur);
              plc' = (if ov \<noteq> None \<and> ov' = None then True else plcEnabled st);
              stepped = bob_step p delta (fst newV) (snd newV) worldDir (bobRef st);
              b' = bob_follow p delta moving (fst (snd stepped)) (fst (snd (snd stepped)))
                     (fst stepped);
              looked = touch_look ov' cam1 inp;
              cam3 = place_camera p body' right b' (fst looked)
          in (st\<lparr>bodyRef := Some body', overrideRef := ov', bobRef := b', plcEnabled := plc',
                  camera := cam3, inputStore := snd looked\<rparr>,
              snd (snd (snd stepped))))"


section \<open>Runs of the controller\<close>

text \<open>
  Between frames the window events reach the handlers, and the collaborators change what
  they own: the physics engine the body (also mounting and unmounting it), the pointer
  lock controls the camera, the input devices the input store.
\<close>

datatype event =
    Tick real
  | TeleportTo "teleport_detail option"
  | ScriptedMove "move_detail option"
  | World "rigid_body option" camera input_store

fun step :: "three \<Rightarrow> props \<Rightarrow> fps_state \<Rightarrow> event \<Rightarrow> fps_state" where
  "step lib p st (Tick delta) = fst (tick lib p delta st)"
| "step lib p st (TeleportTo detail) = teleport_handler detail st"
| "step lib p st (ScriptedMove detail) = scripted_move_handler lib detail st"
| "step lib p st (World body cam inp) = st\<lparr>bodyRef := body, camera := cam, inputStore := inp\<rparr>"

definition run :: "three \<Rightarrow> props \<Rightarrow> fps_state \<Rightarrow> event list \<Rightarrow> fps_state" where
  "run lib p st evs = foldl (step lib p) st evs"

definition elapsed :: "event list \<Rightarrow> real" where
  \<comment> \<open>the frame time of the frames in a run\<close>
  "elapsed evs = (\<Sum>e \<leftarrow> evs. case e of Tick delta \<Rightarrow> delta | _ \<Rightarrow> 0)"


fun frame_event :: "event \<Rightarrow> bool" where
  \<comment> \<open>a frame with non-negative frame time, or a collaborator update that keeps the body\<close>
  "frame_event (Tick delta) = (0 \<le> delta)"
| "frame_event (World body cam inp) = (body \<noteq> None)"
| "frame_event (TeleportTo detail) = False"
| "frame_event (ScriptedMove detail) = False"

fun tick_time_ok :: "event \<Rightarrow> bool" where
  "tick_time_ok (Tick delta) = (0 \<le> delta)"
| "tick_time_ok (TeleportTo detail) = True"
| "tick_time_ok (ScriptedMove detail) = True"
| "tick_time_ok (World body cam inp) = True"


section \<open>Anchors and the door teleport\<close>

text \<open>
  The world matrix of an anchor, with \<open>nij\<close> the entry in row \<open>i\<close> and column \<open>j\<close>.
  The three.js matrix operations used by the door code follow: \<^verbatim>\<open>Matrix4.invert\<close>
  (the adjugate over the determinant; the zero matrix when the determinant is zero),
  \<^verbatim>\<open>Vector3.applyMatrix4\<close> (with its perspective divide) and
  \<^verbatim>\<open>Object3D.getWorldPosition\<close> (the translation column).
\<close>

record matrix4 =
  n11 :: real  n12 :: real  n13 :: real  n14 :: real
  n21 :: real  n22 :: real  n23 :: real  n24 :: real
  n31 :: real  n32 :: real  n33 :: real  n34 :: real
  n41 :: real  n42 :: real  n43 :: real  n44 :: real

definition identity4 :: matrix4 where
  "identity4 =
     \<lparr>n11 = 1, n12 = 0, n13 = 0, n14 = 0,
      n21 = 0, n22 = 1, n23 = 0, n24 = 0,
      n31 = 0, n32 = 0, n33 = 1, n34 = 0,
      n41 = 0, n42 = 0, n43 = 0, n44 = 1\<rparr>"

definition zero4 :: matrix4 where
  "zero4 =
     \<lparr>n11 = 0, n12 = 0, n13 = 0, n14 = 0,
      n21 = 0, n22 = 0, n23 = 0, n24 = 0,
      n31 = 0, n32 = 0, n33 = 0, n34 = 0,
      n41 = 0, n42 = 0, n43 = 0, n44 = 0\<rparr>"

definition multiply4 :: "matrix4 \<Rightarrow> matrix4 \<Rightarrow> matrix4" where
  "multiply4 a b =
     \<lparr>n11 = n11 a * n11 b + n12 a * n21 b + n13 a * n31 b + n14 a * n41 b,
      n12 = n11 a * n12 b + n12 a * n22 b + n13 a * n32 b + n14 a * n42 b,
      n13 = n11 a * n13 b + n12 a * n23 b + n13 a * n33 b + n14 a * n43 b,
      n14 = n11 a * n14 b + n12 a * n24 b + n13 a * n34 b + n14 a * n44 b,
      n21 = n21 a * n11 b + n22 a * n21 b + n23 a * n31 b + n24 a * n41 b,
      n22 = n21 a * n12 b + n22 a * n22 b + n23 a * n32 b + n24 a * n42 b,
      n23 = n21 a * n13 b + n22 a * n23 b + n23 a * n33 b + n24 a * n43 b,
      n24 = n21 a * n14 b + n22 a * n24 b + n23 a * n34 b + n24 a * n44 b,
      n31 = n31 a * n11 b + n32 a * n21 b + n33 a * n31 b + n34 a * n41 b,
      n32 = n31 a * n12 b + n32 a * n22 b + n33 a * n32 b + n34 a * n42 b,
      n33 = n31 a * n13 b + n32 a * n23 b + n33 a * n33 b + n34 a * n43 b,
      n34 = n31 a * n14 b + n32 a * n24 b + n33 a * n34 b + n34 a * n44 b,
      n41 = n41 a * n11 b + n42 a * n21 b + n43 a * n31 b + n44 a * n41 b,
      n42 = n41 a * n12 b + n42 a * n22 b + n43 a * n32 b + n44 a * n42 b,
      n43 = n41 a * n13 b + n42 a * n23 b + n43 a * n33 b + n44 a * n43 b,
      n44 = n41 a * n14 b + n42 a * n24 b + n43 a * n34 b + n44 a * n44 b\<rparr>"

definition adj11 :: "matrix4 \<Rightarrow> real" where
  "adj11 m =
     n23 m * n34 m * n42 m - n24 m * n33 m * n42 m + n24 m * n32 m * n43 m
       - n22 m * n34 m * n43 m - n23 m * n32 m * n44 m + n22 m * n33 m * n44 m"

definition adj12 :: "matrix4 \<Rightarrow> real" where
  "adj12 m =
     n14 m * n33 m * n42 m - n13 m * n34 m * n42 m - n14 m * n32 m * n43 m
       + n12 m * n34 m * n43 m + n13 m * n32 m * n44 m - n12 m * n33 m * n44 m"

definition adj13 :: "matrix4 \<Rightarrow> real" where
  "adj13 m =
     n13 m * n24 m * n42 m - n14 m * n23 m * n42 m + n14 m * n22 m * n43 m
       - n12 m * n24 m * n43 m - n13 m * n22 m * n44 m + n12 m * n23 m * n44 m"

definition adj14 :: "matrix4 \<Rightarrow> real" where
  "adj14 m =
     n14 m * n23 m * n32 m - n13 m * n24 m * n32 m - n14 m * n22 m * n33 m
       + n12 m * n24 m * n33 m + n13 m * n22 m * n34 m - n12 m * n23 m * n34 m"

definition adj21 :: "matrix4 \<Rightarrow> real" where
  "adj21 m =
     n24 m * n33 m * n41 m - n23 m * n34 m * n41 m - n24 m * n31 m * n43 m
       + n21 m * n34 m * n43 m + n23 m * n31 m * n44 m - n21 m * n33 m * n44 m"

definition adj22 :: "matrix4 \<Rightarrow> real" where
  "adj22 m =
     n13 m * n34 m * n41 m - n14 m * n33 m * n41 m + n14 m * n31 m * n43 m
       - n11 m * n34 m * n43 m - n13 m * n31 m * n44 m + n11 m * n33 m * n44 m"

definition adj23 :: "matrix4 \<Rightarrow> real" where
  "adj23 m =
     n14 m * n23 m * n41 m - n13 m * n24 m * n41 m - n14 m * n21 m * n43 m
       + n11 m * n24 m * n43 m + n13 m * n21 m * n44 m - n11 m * n23 m * n44 m"

definition adj24 :: "matrix4 \<Rightarrow> real" where
  "adj24 m =
     n13 m * n24 m * n31 m - n14 m * n23 m * n31 m + n14 m * n21 m * n33 m
       - n11 m * n24 m * n33 m - n13 m * n21 m * n34 m + n11 m * n23 m * n34 m"

definition adj31 :: "matrix4 \<Rightarrow> real" where
  "adj31 m =
     n22 m * n34 m * n41 m - n24 m * n32 m * n41 m + n24 m * n31 m * n42 m
       - n21 m * n34 m * n42 m - n22 m * n31 m * n44 m + n21 m * n32 m * n44 m"

definition adj32 :: "matrix4 \<Rightarrow> real" where
  "adj32 m =
     n14 m * n32 m * n41 m - n12 m * n34 m * n41 m - n14 m * n31 m * n42 m
       + n11 m * n34 m * n42 m + n12 m * n31 m * n44 m - n11 m * n32 m * n44 m"

definition adj33 :: "matrix4 \<Rightarrow> real" where
  "adj33 m =
     n12 m * n24 m * n41 m - n14 m * n22 m * n41 m + n14 m * n21 m * n42 m
       - n11 m * n24 m * n42 m - n12 m * n21 m * n44 m + n11 m * n22 m * n44 m"

definition adj34 :: "matrix4 \<Rightarrow> real" where
  "adj34 m =
     n14 m * n22 m * n31 m - n12 m * n24 m * n31 m - n14 m * n21 m * n32 m
       + n11 m * n24 m * n32 m + n12 m * n21 m * n34 m - n11 m * n22 m * n34 m"

definition adj41 :: "matrix4 \<Rightarrow> real" where
  "adj41 m =
     n23 m * n32 m * n41 m - n22 m * n33 m * n41 m - n23 m * n31 m * n42 m
       + n21 m * n33 m * n42 m + n22 m * n31 m * n43 m - n21 m * n32 m * n43 m"

definition adj42 :: "matrix4 \<Rightarrow> real" where
  "adj42 m =
     n12 m * n33 m * n41 m - n13 m * n32 m * n41 m + n13 m * n31 m * n42 m
       - n11 m * n33 m * n42 m - n12 m * n31 m * n43 m + n11 m * n32 m * n43 m"

definition adj43 :: "matrix4 \<Rightarrow> real" where
  "adj43 m =
     n13 m * n22 m * n41 m - n12 m * n23 m * n41 m - n13 m * n21 m * n42 m
       + n11 m * n23 m * n42 m + n12 m * n21 m * n43 m - n11 m * n22 m * n43 m"

definition adj44 :: "matrix4 \<Rightarrow> real" where
  "adj44 m =
     n12 m * n23 m * n31 m - n13 m * n22 m * n31 m + n13 m * n21 m * n32 m
       - n11 m * n23 m * n32 m - n12 m * n21 m * n33 m + n11 m * n22 m * n33 m"

definition determinant :: "matrix4 \<Rightarrow> real" where
  "determinant m = n11 m * adj11 m + n21 m * adj12 m + n31 m * adj13 m + n41 m * adj14 m"

definition invert :: "matrix4 \<Rightarrow> matrix4" where
  "invert m =
     (let det = determinant m
      in if det = 0 then zero4
         else let detInv = 1 / det
           in \<lparr>n11 = adj11 m * detInv,
               n12 = adj12 m * detInv,
               n13 = adj13 m * detInv,
               n14 = adj14 m * detInv,
               n21 = adj21 m * detInv,
               n22 = adj22 m * detInv,
               n23 = adj23 m * detInv,
               n24 = adj24 m * detInv,
               n31 = adj31 m * detInv,
               n32 = adj32 m * detInv,
               n33 = adj33 m * detInv,
               n34 = adj34 m * detInv,
               n41 = adj41 m * detInv,
               n42 = adj42 m * detInv,
               n43 = adj43 m * detInv,
               n44 = adj44 m * detInv\<rparr>)"

text \<open>
  In JavaScript a zero divisor in \<^verbatim>\<open>applyMatrix4\<close> gives infinite or NaN coordinates;
  the model has no such numbers and returns \<open>None\<close> there.
\<close>

definition applyMatrix4 :: "vec3 \<Rightarrow> matrix4 \<Rightarrow> vec3 option" where
  "applyMatrix4 v e =
     (let divisor = n41 e * vx v + n42 e * vy v + n43 e * vz v + n44 e
      in if divisor = 0 then None
         else let w = 1 / divisor
           in Some (vec ((n11 e * vx v + n12 e * vy v + n13 e * vz v + n14 e) * w)
                        ((n21 e * vx v + n22 e * vy v + n23 e * vz v + n24 e) * w)
                        ((n31 e * vx v + n32 e * vy v + n33 e * vz v + n34 e) * w)))"

record object3d =
  matrixWorld :: matrix4
  obj_rotation_y :: real

definition getWorldPosition :: "object3d \<Rightarrow> vec3" where
  "getWorldPosition obj = vec (n14 (matrixWorld obj)) (n24 (matrixWorld obj)) (n34 (matrixWorld obj))"

text \<open>The refs of the door hook of the basement scene.\<close>

record door_hook =
  doorStartRef :: "object3d option"
  doorEndRef :: "object3d option"
  openingRef :: bool
  openedRef :: bool
  targetYRef :: real
  initialYRef :: real

datatype timer = CloseDoor | RetryDoorEndTeleport

text \<open>
  What the door code does to the outside, in order: the window events it dispatches (the
  controller's handlers run at once), the sounds it plays and the timers it sets.
\<close>

datatype effect =
    DispatchTeleport "teleport_detail option"
  | DispatchScriptedMove "move_detail option"
  | PlayDoorOpen
  | SetTimeout timer nat

datatype failure = NonFinite

definition openStartDoor :: "bool \<Rightarrow> door_hook \<Rightarrow> door_hook \<times> effect list" where
  "openStartDoor withScriptedMove hook =
     (case doorStartRef hook of
        None \<Rightarrow> (hook, [])
      | Some door \<Rightarrow>
          let hook' = hook\<lparr>targetYRef := initialYRef hook - pi / 2, openingRef := True\<rparr>;
              doorPos = getWorldPosition door;
              move =
                (if withScriptedMove
                 then [DispatchScriptedMove
                         (Some \<lparr>d_durationSec = Some (22 / 10), d_distance = Some (24 / 10),
                                 d_lockLook = Some True,
                                 d_lookAt = Some (vx doorPos - 10, vy doorPos, vz doorPos),
                                 d_lookSlerp = Some (25 / 10),
                                 d_moveDelaySec = Some (35 / 100)\<rparr>)]
                 else [])
          in (hook', [PlayDoorOpen] @ move @ [SetTimeout CloseDoor 3200]))"

definition door_look_dir :: "object3d \<Rightarrow> vec3 \<Rightarrow> vec3" where
  \<comment> \<open>\<^verbatim>\<open>lookDir\<close>: from the point behind the start door toward the start door\<close>
  "door_look_dir doorStart playerLocalToEnd =
     (let distanceOfPlayerFromDoorEnd = js_hypot (vx playerLocalToEnd) (vz playerLocalToEnd);
          startPos = getWorldPosition doorStart;
          startTeleportPos =
            vsub (getWorldPosition doorStart) (vec distanceOfPlayerFromDoorEnd 0 0)
      in normalize (set_y (vsub startPos startTeleportPos) 0))"

definition door_facing_yaw :: "object3d \<Rightarrow> vec3 \<Rightarrow> real" where
  \<comment> \<open>the \<^verbatim>\<open>yaw\<close> that is sent with the teleport\<close>
  "door_facing_yaw doorStart playerLocalToEnd =
     (let lookDir = door_look_dir doorStart playerLocalToEnd
      in js_atan2 (vx lookDir) (vz lookDir))"

text \<open>
  \<^verbatim>\<open>tryDoorEndTeleport\<close> reads the camera position and the two doors.  The handlers
  that run during its dispatches change neither, so its effects are collected and
  delivered afterwards.
\<close>

definition tryDoorEndTeleport ::
  "vec3 \<Rightarrow> door_hook \<Rightarrow> failure + (bool \<times> door_hook \<times> effect list)" where
  "tryDoorEndTeleport cameraPosition hook =
     (case doorEndRef hook of
        None \<Rightarrow> Inr (False, hook, [])
      | Some doorEnd \<Rightarrow>
     (case doorStartRef hook of
        None \<Rightarrow> Inr (False, hook, [])
      | Some doorStart \<Rightarrow>
          let endPos = getWorldPosition doorEnd;
              dist = distanceTo endPos cameraPosition
          in if dist > 1 then Inr (False, hook, [])
             else
               let doorPos = getWorldPosition doorEnd;
                   distToDoorEnd = distanceTo doorPos cameraPosition;
                   approach =
                     (if distToDoorEnd > 1
                      then [DispatchScriptedMove
                              (Some \<lparr>d_durationSec = Some 1, d_distance = Some distToDoorEnd,
                                      d_lockLook = None, d_lookAt = None, d_lookSlerp = None,
                                      d_moveDelaySec = None\<rparr>),
                            SetTimeout RetryDoorEndTeleport 1000]
                      else []);
                   endMatrix = matrixWorld doorEnd;
                   invEndMatrix = invert endMatrix;
                   startMatrix = matrixWorld doorStart;
                   playerWorld = cameraPosition
               in case applyMatrix4 playerWorld invEndMatrix of
                    None \<Rightarrow> Inl NonFinite
                  | Some playerLocalToEnd \<Rightarrow>
                      let localXZ = vec (vx playerLocalToEnd) 0 (vz playerLocalToEnd)
                      in case applyMatrix4 localXZ startMatrix of
                           None \<Rightarrow> Inl NonFinite
                         | Some targetWorld \<Rightarrow>
                             let yaw = door_facing_yaw doorStart playerLocalToEnd;
                                 teleport =
                                   DispatchTeleport
                                     (Some \<lparr>d_x = Some (vx targetWorld + 8 / 10), d_y = None,
                                             d_z = Some (vz targetWorld), d_keepY = Some True,
                                             d_yaw = Some yaw\<rparr>);
                                 opened = openStartDoor True hook
                             in Inr (True, fst opened, approach @ [teleport] @ snd opened)))"

fun deliver1 :: "three \<Rightarrow> fps_state \<Rightarrow> effect \<Rightarrow> fps_state" where
  "deliver1 lib st (DispatchTeleport detail) = teleport_handler detail st"
| "deliver1 lib st (DispatchScriptedMove detail) = scripted_move_handler lib detail st"
| "deliver1 lib st PlayDoorOpen = st"
| "deliver1 lib st (SetTimeout callback ms) = st"

definition deliver :: "three \<Rightarrow> fps_state \<Rightarrow> effect list \<Rightarrow> fps_state" where
  \<comment> \<open>the controller after the dispatched events have reached its handlers\<close>
  "deliver lib st effects = foldl (deliver1 lib) st effects"


section \<open>Sample inputs\<close>

text \<open>
  Concrete values at which the model is evaluated: the body where the component mounts it
  (\<^verbatim>\<open>position={[8,0,1.5]}\<close>), the camera of the canvas
  (\<^verbatim>\<open>camera={{ position: [0, 1.8, 5] }}\<close>), the refs at their initial values, and an
  instance of the library parameters in which the camera faces \<open>-Z\<close> and a turn leaves
  it as it is.
\<close>

definition mounted_body :: rigid_body where
  "mounted_body = \<lparr>translation = vec 8 0 (15 / 10), linvel = vec 0 0 0\<rparr>"

definition canvas_camera :: camera where
  "canvas_camera =
     \<lparr>cam_position = vec 0 (18 / 10) 5, rotation_x = 0, rotation_y = 0, rotation_z = 0,
      rotation_order = XYZ\<rparr>"

definition idle_input :: input_store where
  "idle_input = \<lparr>axes_x = 0, axes_y = 0, look_dx = 0, look_dy = 0, touchMode = False\<rparr>"

definition unmounted_state :: fps_state where
  "unmounted_state =
     \<lparr>bodyRef = None, overrideRef = None, bobRef = initial_bob, plcEnabled = True,
      camera = canvas_camera, inputStore = idle_input\<rparr>"

definition mounted_state :: fps_state where
  "mounted_state = unmounted_state\<lparr>bodyRef := Some mounted_body\<rparr>"

definition facing_minus_z :: "camera \<Rightarrow> vec3" where
  "facing_minus_z cam = vec 0 0 (- 1)"

definition no_turn :: "camera \<Rightarrow> vec3 \<Rightarrow> real \<Rightarrow> camera" where
  "no_turn cam target k = cam"

definition sample_three :: three where
  "sample_three = \<lparr>getWorldDirection = facing_minus_z, slerpLookAt = no_turn\<rparr>"

definition scenario_move :: move_detail where
  \<comment> \<open>the scripted move of the door sequence, looking at \<open>[5, 0, 0]\<close>\<close>
  "scenario_move =
     \<lparr>d_durationSec = Some (22 / 10), d_distance = Some (24 / 10), d_lockLook = Some True,
      d_lookAt = Some (5, 0, 0), d_lookSlerp = Some (25 / 10), d_moveDelaySec = Some (35 / 100)\<rparr>"

definition scenario_teleport :: teleport_detail where
  \<comment> \<open>teleport to \<open>(10, _, 5)\<close> keeping the height, facing \<open>\<pi>/2\<close>\<close>
  "scenario_teleport =
     \<lparr>d_x = Some 10, d_y = None, d_z = Some 5, d_keepY = Some True, d_yaw = Some (pi / 2)\<rparr>"


definition sliding_state :: fps_state where
  \<comment> \<open>the body sliding along \<open>x\<close> at 3 m/s while the forward axis is pushed\<close>
  "sliding_state =
     mounted_state\<lparr>bodyRef := Some \<lparr>translation = vec 8 0 (3 / 2), linvel = vec 3 0 0\<rparr>,
                    inputStore := idle_input\<lparr>axes_y := 1\<rparr>\<rparr>"

definition late_phase_state :: fps_state where
  \<comment> \<open>the bob in full swing, with its phase just before the end of a cycle\<close>
  "late_phase_state =
     mounted_state\<lparr>bobRef := \<lparr>phase = 2 * pi - 1 / 10, intensity = 1, smoothedHz = 4 / 5,
                                 smoothedVertical = 0, smoothedLateral = 0\<rparr>\<rparr>"

text \<open>
  A second instance of the library parameters, for a level camera: the view direction
  follows the camera's yaw, and a turn moves the yaw the fraction \<open>k\<close> of the way to the
  yaw that faces the target.
\<close>

definition yaw_direction :: "camera \<Rightarrow> vec3" where
  "yaw_direction cam = vec (- sin (rotation_y cam)) 0 (- cos (rotation_y cam))"

definition yaw_turn :: "camera \<Rightarrow> vec3 \<Rightarrow> real \<Rightarrow> camera" where
  "yaw_turn cam target k =
     cam\<lparr>rotation_y :=
           rotation_y cam
             + k * (js_atan2 (vx (cam_position cam) - vx target) (vz (cam_position cam) - vz target)
                    - rotation_y cam)\<rparr>"

definition turning_three :: three where
  "turning_three = \<lparr>getWorldDirection = yaw_direction, slerpLookAt = yaw_turn\<rparr>"


definition identity_door :: object3d where
  \<comment> \<open>a door at the world origin, not rotated\<close>
  "identity_door = \<lparr>matrixWorld = identity4, obj_rotation_y = 0\<rparr>"

definition sample_hook :: door_hook where
  "sample_hook =
     \<lparr>doorStartRef = Some identity_door, doorEndRef = Some identity_door,
      openingRef = False, openedRef = False, targetYRef = 0, initialYRef = 0\<rparr>"

definition at_door_state :: fps_state where
  \<comment> \<open>the mounted controller with the camera at the world origin and a yaw of 1\<close>
  "at_door_state =
     mounted_state\<lparr>camera := canvas_camera\<lparr>cam_position := vec 0 0 0, rotation_y := 1\<rparr>\<rparr>"


definition sample_portal_effects :: "effect list" where
  \<comment> \<open>what the door teleport does at \<open>sample_hook\<close> with the camera at the origin\<close>
  "sample_portal_effects =
     [DispatchTeleport
        (Some \<lparr>d_x = Some (8 / 10), d_y = None, d_z = Some 0, d_keepY = Some True,
                d_yaw = Some 0\<rparr>),
      PlayDoorOpen,
      DispatchScriptedMove
        (Some \<lparr>d_durationSec = Some (22 / 10), d_distance = Some (24 / 10),
                d_lockLook = Some True, d_lookAt = Some (- 10, 0, 0),
                d_lookSlerp = Some (25 / 10), d_moveDelaySec = Some (35 / 100)\<rparr>),
      SetTimeout CloseDoor 3200]"


section \<open>Properties of the velocity blend\<close>

lemma moveTowards_cases:
  "moveTowards a d dt c t =
     (if \<bar>t - c\<bar> \<le> blend_rate a d c t * dt then t
      else if t > c then c + blend_rate a d c t * dt
      else if t < c then c - blend_rate a d c t * dt
      else c)"
  by (simp add: moveTowards_def blend_rate_def js_sign_def Let_def)

text \<open>
  Claim C3.  With a non-negative frame time and non-negative acceleration and
  deceleration constants, one blending step never overshoots: the new value lies
  between the old value and the target, its distance to the target is at most the old
  distance, and a gap of at most \<open>rate * delta\<close> is closed exactly.
\<close>

theorem moveTowards_no_overshoot:
  assumes "0 \<le> delta" and "0 \<le> acc" and "0 \<le> dec"
  shows "\<bar>target - moveTowards acc dec delta current target\<bar> \<le> \<bar>target - current\<bar>
       \<and> min current target \<le> moveTowards acc dec delta current target
       \<and> moveTowards acc dec delta current target \<le> max current target
       \<and> (\<bar>target - current\<bar> \<le> blend_rate acc dec current target * delta
           \<longrightarrow> moveTowards acc dec delta current target = target)"
proof -
  let ?r = "blend_rate acc dec current target"
  have r: "0 \<le> ?r * delta"
    using assms by (simp add: blend_rate_def)
  show ?thesis
  proof (cases "\<bar>target - current\<bar> \<le> ?r * delta")
    case True
    then show ?thesis by (simp add: moveTowards_cases)
  next
    case False
    with r show ?thesis
      by (auto simp add: moveTowards_cases)
  qed
qed

theorem moveTowards_no_overshoot_witness:
  "\<bar>2 - moveTowards 18 22 (1 / 60) 0 2\<bar> \<le> \<bar>2 - (0::real)\<bar>
   \<and> moveTowards 18 22 (1 / 60) 0 2 = 3 / 10
   \<and> moveTowards 18 22 (1 / 60) (19 / 10) 2 = 2"
  using moveTowards_no_overshoot [of "1 / 60" 18 22 2 0]
    moveTowards_no_overshoot [of "1 / 60" 18 22 2 "19 / 10"]
  by (simp add: moveTowards_cases blend_rate_def)


section \<open>What the handlers and a frame leave behind\<close>

lemma teleport_handler_body:
  "bodyRef st = Some body \<Longrightarrow>
   bodyRef (teleport_handler detail st) =
     Some (body\<lparr>linvel := vec 0 0 0,
                translation := vec (nullish (opt_chain detail d_x) (vx (translation body)))
                  (if opt_chain detail d_keepY = Some True then vy (translation body)
                   else nullish (opt_chain detail d_y) (vy (translation body)))
                  (nullish (opt_chain detail d_z) (vz (translation body)))\<rparr>)"
  by (simp add: teleport_handler_def Let_def)

lemma teleport_handler_override:
  "bodyRef st = Some body \<Longrightarrow> overrideRef (teleport_handler detail st) = None"
  by (simp add: teleport_handler_def Let_def)

lemma teleport_handler_camera:
  "bodyRef st = Some body \<Longrightarrow>
   camera (teleport_handler detail st) =
     (case opt_chain detail d_yaw of
        Some yaw \<Rightarrow> (camera st)\<lparr>rotation_order := YXZ, rotation_y := yaw\<rparr>
      | None \<Rightarrow> camera st)"
  by (simp add: teleport_handler_def Let_def)

lemma tick_override:
  "bodyRef st = Some body \<Longrightarrow>
   overrideRef (fst (tick lib p delta st)) =
     (case overrideRef st of None \<Rightarrow> None | Some cur \<Rightarrow> advance_override delta cur)"
  by (simp add: tick_def Let_def)

lemma tick_body:
  "bodyRef st = Some body \<Longrightarrow>
   bodyRef (fst (tick lib p delta st)) =
     Some (command_velocity (overrideRef st) (fst (blended_velocity lib p delta st body))
            (snd (blended_velocity lib p delta st body)) body)"
  by (simp add: tick_def Let_def)

lemma tick_rotation_y:
  "bodyRef st = Some body \<Longrightarrow> overrideRef st = None \<Longrightarrow>
   rotation_y (camera (fst (tick lib p delta st))) =
     (if touchMode (inputStore st) \<and> (look_dx (inputStore st) \<noteq> 0 \<or> look_dy (inputStore st) \<noteq> 0)
      then rotation_y (camera st) - look_dx (inputStore st) * (25 / 10000)
      else rotation_y (camera st))"
  by (simp add: tick_def Let_def look_phase_def touch_look_def place_camera_def
      isTouchMode_def consumeLookDelta_def)

section \<open>Teleport\<close>

text \<open>
  Claim C1.  A teleport request handled while the body is present leaves the body with
  zero linear velocity at the requested coordinates (a coordinate that was not requested,
  and the height when \<open>keepY\<close> is set, keep their value), and cancels the override, so
  that \<open>canMove\<close> holds in the frame that follows, whatever the state was before, and
  that frame leaves no override.  A requested yaw is the camera's yaw after the handler,
  and still after the next frame unless a touch look delta is pending.
\<close>

theorem teleport_resets_controller:
  assumes "bodyRef st = Some body"
  shows "(\<exists>body'. bodyRef (teleport_handler detail st) = Some body'
            \<and> linvel body' = vec 0 0 0
            \<and> vx (translation body') = nullish (opt_chain detail d_x) (vx (translation body))
            \<and> vz (translation body') = nullish (opt_chain detail d_z) (vz (translation body))
            \<and> vy (translation body') =
                (if opt_chain detail d_keepY = Some True then vy (translation body)
                 else nullish (opt_chain detail d_y) (vy (translation body))))
       \<and> overrideRef (teleport_handler detail st) = None
       \<and> canMove (overrideRef (teleport_handler detail st))
       \<and> overrideRef (fst (tick lib p delta (teleport_handler detail st))) = None
       \<and> (\<forall>yaw. opt_chain detail d_yaw = Some yaw \<longrightarrow>
             rotation_y (camera (teleport_handler detail st)) = yaw
             \<and> ((touchMode (inputStore st) \<longrightarrow>
                     look_dx (inputStore st) = 0 \<and> look_dy (inputStore st) = 0) \<longrightarrow>
                  rotation_y (camera (fst (tick lib p delta (teleport_handler detail st)))) = yaw))"
proof -
  let ?st = "teleport_handler detail st"
  obtain body' where b: "bodyRef ?st = Some body'"
    using assms by (simp add: teleport_handler_body)
  have o: "overrideRef ?st = None"
    using assms by (rule teleport_handler_override)
  have t: "touchMode (inputStore ?st) = touchMode (inputStore st)"
    "look_dx (inputStore ?st) = look_dx (inputStore st)"
    "look_dy (inputStore ?st) = look_dy (inputStore st)"
    using assms by (simp_all add: teleport_handler_def Let_def setMoveAxes_def)
  show ?thesis
    using assms b o t
    by (auto simp add: teleport_handler_body teleport_handler_camera tick_override
        tick_rotation_y canMove_def vec_def)
qed

theorem teleport_resets_controller_witness:
  "bodyRef mounted_state = Some mounted_body
   \<and> bodyRef (teleport_handler (Some scenario_teleport) mounted_state)
       = Some \<lparr>translation = vec 10 0 5, linvel = vec 0 0 0\<rparr>
   \<and> rotation_y (camera (teleport_handler (Some scenario_teleport) mounted_state)) = pi / 2"
  using teleport_resets_controller [of mounted_state mounted_body "Some scenario_teleport"
      sample_three default_props "1 / 60"]
  by (simp add: mounted_state_def unmounted_state_def mounted_body_def scenario_teleport_def
      teleport_handler_def opt_chain_def nullish_def Let_def vec_def)

section \<open>Velocity blending in a frame\<close>

lemma moveTowards_step_bound:
  "0 \<le> blend_rate a d c t * dt \<Longrightarrow> \<bar>moveTowards a d dt c t - c\<bar> \<le> blend_rate a d c t * dt"
  by (auto simp add: moveTowards_cases)

text \<open>
  Claim C2.  In every frame each horizontal axis of the velocity is blended toward the
  desired velocity by \<open>moveTowards\<close>: the rate is the acceleration constant when the
  target is larger in magnitude than the current value and the deceleration constant
  otherwise, and the value changes by at most \<open>rate * delta\<close>.  The body is commanded
  with the blended values, except in the delay phase of an override, where the horizontal
  velocity is set to zero.
\<close>

theorem tick_blends_velocity:
  assumes "bodyRef st = Some body" and "0 \<le> delta"
    and "0 \<le> acceleration p" and "0 \<le> deceleration p"
  shows "fst (blended_velocity lib p delta st body) =
           moveTowards (acceleration p) (deceleration p) delta (vx (linvel body))
             (fst (frame_desired lib p st))
       \<and> snd (blended_velocity lib p delta st body) =
           moveTowards (acceleration p) (deceleration p) delta (vz (linvel body))
             (snd (frame_desired lib p st))
       \<and> (\<forall>current target.
            moveTowards (acceleration p) (deceleration p) delta current target =
              (let rate = (if \<bar>target\<bar> > \<bar>current\<bar> then acceleration p else deceleration p)
               in if \<bar>target - current\<bar> \<le> rate * delta then target
                  else if current < target then current + rate * delta
                  else current - rate * delta)
            \<and> \<bar>moveTowards (acceleration p) (deceleration p) delta current target - current\<bar>
                \<le> (if \<bar>target\<bar> > \<bar>current\<bar> then acceleration p else deceleration p) * delta)
       \<and> bodyRef (fst (tick lib p delta st)) =
           Some (body\<lparr>linvel :=
                   (if canMove (overrideRef st)
                    then vec (fst (blended_velocity lib p delta st body)) (vy (linvel body))
                           (snd (blended_velocity lib p delta st body))
                    else vec 0 (vy (linvel body)) 0)\<rparr>)"
proof -
  have r: "0 \<le> blend_rate (acceleration p) (deceleration p) c t * delta" for c t
    using assms by (simp add: blend_rate_def)
  have 1: "\<bar>moveTowards (acceleration p) (deceleration p) delta c t - c\<bar>
        \<le> (if \<bar>t\<bar> > \<bar>c\<bar> then acceleration p else deceleration p) * delta" for c t
    using moveTowards_step_bound [OF r, of c t] by (simp add: blend_rate_def)
  have 2: "moveTowards (acceleration p) (deceleration p) delta c t =
              (let rate = (if \<bar>t\<bar> > \<bar>c\<bar> then acceleration p else deceleration p)
               in if \<bar>t - c\<bar> \<le> rate * delta then t
                  else if c < t then c + rate * delta
                  else c - rate * delta)" for c t
    using r [of c t] by (auto simp add: moveTowards_cases blend_rate_def Let_def)
  have 3: "bodyRef (fst (tick lib p delta st)) =
           Some (body\<lparr>linvel :=
                   (if canMove (overrideRef st)
                    then vec (fst (blended_velocity lib p delta st body)) (vy (linvel body))
                           (snd (blended_velocity lib p delta st body))
                    else vec 0 (vy (linvel body)) 0)\<rparr>)"
    using assms(1)
    by (simp add: tick_body command_velocity_def Let_def canMove_def split: option.splits)
  show ?thesis
    using 1 2 3 by (simp add: blended_velocity_def Let_def)
qed

lemma sliding_frame_desired: "frame_desired sample_three default_props sliding_state = (0, - 2)"
proof -
  have l: "vlength (vec 0 0 (- 1)) = 1" "lengthSq (vec 0 0 (- 1)) = 1"
    by (simp_all add: vlength_def lengthSq_def vec_def)
  have n: "normalize (vec 0 0 (- 1)) = vec 0 0 (- 1)"
    by (simp add: normalize_def l Let_def) (simp add: vec_def)
  have f: "forward_of sample_three (camera sliding_state) = vec 0 0 (- 1)"
    using n by (simp add: forward_of_def sample_three_def facing_minus_z_def set_y_def vec_def)
  have c: "crossVectors (vec 0 0 (- 1)) upVec = vec 1 0 0"
    by (simp add: crossVectors_def upVec_def vec_def)
  have "normalize (vec 1 0 0) = vec 1 0 0"
    by (simp add: normalize_def vlength_def lengthSq_def Let_def vec_def)
  then have r: "right_of (vec 0 0 (- 1)) = vec 1 0 0"
    by (simp add: right_of_def c)
  have i: "overrideRef sliding_state = None" "axes_x (inputStore sliding_state) = 0"
    "axes_y (inputStore sliding_state) = 1" "hasAxesMove (inputStore sliding_state)"
    by (simp_all add: sliding_state_def mounted_state_def unmounted_state_def idle_input_def
        hasAxesMove_def getMoveAxes_def)
  have d: "move_dir None (inputStore sliding_state) (vec 0 0 (- 1)) (vec 1 0 0) = vec 0 0 (- 1)"
    by (simp add: move_dir_def i vadd_def multiplyScalar_def vec_def)
  have s: "prop_speed default_props = 2"
    by (simp add: default_props_def)
  have "desired_velocity default_props None (inputStore sliding_state) (vec 0 0 (- 1)) = (0, - 2)"
    by (simp add: desired_velocity_def isMoving_def i l n s Let_def) (simp add: vec_def)
  then show ?thesis
    by (simp add: frame_desired_def Let_def i f r d)
qed

theorem tick_blends_velocity_witness:
  "bodyRef sliding_state = Some \<lparr>translation = vec 8 0 (3 / 2), linvel = vec 3 0 0\<rparr>
   \<and> frame_desired sample_three default_props sliding_state = (0, - 2)
   \<and> blended_velocity sample_three default_props (1 / 60) sliding_state
         \<lparr>translation = vec 8 0 (3 / 2), linvel = vec 3 0 0\<rparr> = (3 - 22 / 60, - (18 / 60))
   \<and> bodyRef (fst (tick sample_three default_props (1 / 60) sliding_state))
       = Some \<lparr>translation = vec 8 0 (3 / 2), linvel = vec (79 / 30) 0 (- (3 / 10))\<rparr>"
proof -
  let ?body = "\<lparr>translation = vec 8 0 (3 / 2), linvel = vec 3 0 0\<rparr>"
  have b: "bodyRef sliding_state = Some ?body"
    by (simp add: sliding_state_def)
  have o: "canMove (overrideRef sliding_state)"
    by (simp add: canMove_def sliding_state_def mounted_state_def unmounted_state_def)
  have a: "acceleration default_props = 18" "deceleration default_props = 22"
    by (simp_all add: default_props_def)
  have v: "blended_velocity sample_three default_props (1 / 60) sliding_state ?body
             = (79 / 30, - (3 / 10))"
    by (simp add: blended_velocity_def sliding_frame_desired a moveTowards_cases blend_rate_def
        Let_def vec_def)
  have t: "bodyRef (fst (tick sample_three default_props (1 / 60) sliding_state))
       = Some (?body\<lparr>linvel := vec (79 / 30) (vy (linvel ?body)) (- (3 / 10))\<rparr>)"
    using tick_blends_velocity [OF b, of "1 / 60" default_props sample_three] a o
    by (simp add: v)
  from t v sliding_frame_desired b show ?thesis
    by (simp add: vec_def)
qed

section \<open>Scripted moves\<close>

text \<open>
  Claim C10.  Whatever the request holds, the override stored by the scripted-move
  handler has a duration of at least 0.05, a distance of at least 0.05 divided by that
  duration as its speed, which is therefore positive, and a non-negative delay.
\<close>

theorem scripted_move_clamps:
  "\<exists>ov. overrideRef (scripted_move_handler lib detail st) = Some ov
     \<and> duration ov = max (5 / 100) (nullish (opt_chain detail d_durationSec) (12 / 10))
     \<and> timeLeft ov = duration ov
     \<and> speed ov = max (5 / 100) (nullish (opt_chain detail d_distance) (15 / 10)) / duration ov
     \<and> moveDelayLeft ov = max 0 (nullish (opt_chain detail d_moveDelaySec) (35 / 100))
     \<and> 5 / 100 \<le> duration ov \<and> 0 < speed ov \<and> 0 \<le> moveDelayLeft ov"
proof -
  have "0 < max (5 / 100) a / max (5 / 100) b" for a b :: real
    by (rule divide_pos_pos) simp_all
  then show ?thesis
    by (simp add: scripted_move_handler_def Let_def)
qed

theorem scripted_move_clamps_witness:
  "map_option speed (overrideRef (scripted_move_handler sample_three
       (Some \<lparr>d_durationSec = Some 0, d_distance = Some (- 3), d_lockLook = None,
               d_lookAt = None, d_lookSlerp = None, d_moveDelaySec = Some (- 1)\<rparr>)
       mounted_state)) = Some 1
   \<and> map_option moveDelayLeft (overrideRef (scripted_move_handler sample_three
       (Some \<lparr>d_durationSec = Some 0, d_distance = Some (- 3), d_lockLook = None,
               d_lookAt = None, d_lookSlerp = None, d_moveDelaySec = Some (- 1)\<rparr>)
       mounted_state)) = Some 0"
  using scripted_move_clamps [of sample_three
       "Some \<lparr>d_durationSec = Some 0, d_distance = Some (- 3), d_lockLook = None,
               d_lookAt = None, d_lookSlerp = None, d_moveDelaySec = Some (- 1)\<rparr>"
       mounted_state]
  by (auto simp add: opt_chain_def nullish_def)


section \<open>The bob phase\<close>

lemma js_rem_floor: "0 \<le> a \<Longrightarrow> 0 < b \<Longrightarrow> js_rem a b = a - b * of_int \<lfloor>a / b\<rfloor>"
  by (simp add: js_rem_def js_trunc_def)

lemma js_rem_range:
  assumes "0 \<le> a" and "0 < b"
  shows "0 \<le> js_rem a b \<and> js_rem a b < b"
proof -
  let ?q = "a / b"
  have q: "of_int \<lfloor>?q\<rfloor> \<le> ?q" "?q < of_int \<lfloor>?q\<rfloor> + 1"
    by linarith+
  have "b * of_int \<lfloor>?q\<rfloor> \<le> b * ?q"
    using q(1) assms(2) by (simp only: mult_le_cancel_left_pos)
  moreover have "b * ?q < b * (of_int \<lfloor>?q\<rfloor> + 1)"
    using q(2) assms(2) by (simp only: mult_less_cancel_left_pos)
  moreover have "b * ?q = a"
    using assms(2) by simp
  ultimately show ?thesis
    using assms by (simp add: js_rem_floor algebra_simps)
qed

lemma js_rem_small: "0 \<le> a \<Longrightarrow> a < b \<Longrightarrow> js_rem a b = a"
proof -
  assume a: "0 \<le> a" "a < b"
  then have "\<lfloor>a / b\<rfloor> = 0"
    by (simp add: floor_eq_iff)
  with a show ?thesis
    by (simp add: js_rem_floor)
qed

lemma js_rem_once: "b \<le> a \<Longrightarrow> a < 2 * b \<Longrightarrow> 0 < b \<Longrightarrow> js_rem a b = a - b"
proof -
  assume a: "b \<le> a" "a < 2 * b" "0 < b"
  then have "\<lfloor>a / b\<rfloor> = 1"
    by (simp add: floor_eq_iff field_simps)
  with a show ?thesis
    by (simp add: js_rem_floor)
qed

lemma bob_step_phase:
  "phase (fst (bob_step p delta newVX newVZ worldDir b)) =
     (if bobEnabled p \<and> bob_intensity p delta newVX newVZ b > 1 / 1000
          \<and> bob_stepHz p delta newVX newVZ b > 1 / 10000
      then js_rem (phase b + bob_stepHz p delta newVX newVZ b * 2 * pi * delta) (pi * 2)
      else phase b)"
  by (simp add: bob_step_def Let_def)

lemma bob_step_feet:
  "snd (snd (snd (bob_step p delta newVX newVZ worldDir b))) =
     (if bobEnabled p \<and> bob_intensity p delta newVX newVZ b > 1 / 1000
          \<and> bob_stepHz p delta newVX newVZ b > 1 / 10000 \<and> onFootstep p
      then footsteps (phase b)
             (js_rem (phase b + bob_stepHz p delta newVX newVZ b * 2 * pi * delta) (pi * 2))
      else [])"
  by (simp add: bob_step_def Let_def)

lemma tick_phase:
  "bodyRef st = Some body \<Longrightarrow>
   phase (bobRef (fst (tick lib p delta st))) =
     phase (fst (bob_step p delta (fst (blended_velocity lib p delta st body))
                   (snd (blended_velocity lib p delta st body))
                   (forward_of lib (camera st)) (bobRef st)))"
  by (simp add: tick_def Let_def bob_follow_def)

lemma tick_feet:
  "bodyRef st = Some body \<Longrightarrow>
   snd (tick lib p delta st) =
     snd (snd (snd (bob_step p delta (fst (blended_velocity lib p delta st body))
                   (snd (blended_velocity lib p delta st body))
                   (forward_of lib (camera st)) (bobRef st))))"
  by (simp add: tick_def Let_def)

lemma tick_no_body: "bodyRef st = None \<Longrightarrow> tick lib p delta st = (st, [])"
  by (simp add: tick_def)

lemma bob_step_phase_range:
  assumes "0 \<le> delta" and "0 \<le> phase b" and "phase b < 2 * pi"
  shows "0 \<le> phase (fst (bob_step p delta newVX newVZ worldDir b))
       \<and> phase (fst (bob_step p delta newVX newVZ worldDir b)) < 2 * pi"
proof (cases "bobEnabled p \<and> bob_intensity p delta newVX newVZ b > 1 / 1000
          \<and> bob_stepHz p delta newVX newVZ b > 1 / 10000")
  case True
  then have "0 \<le> bob_stepHz p delta newVX newVZ b * 2 * pi * delta"
    using assms(1) by simp
  then have "0 \<le> phase b + bob_stepHz p delta newVX newVZ b * 2 * pi * delta"
    using assms(2) by linarith
  from js_rem_range [OF this, of "pi * 2"] True show ?thesis
    by (simp add: bob_step_phase)
next
  case False
  with assms show ?thesis
    by (auto simp add: bob_step_phase)
qed

lemma step_phase_range:
  assumes "tick_time_ok e" and "0 \<le> phase (bobRef st)" and "phase (bobRef st) < 2 * pi"
  shows "0 \<le> phase (bobRef (step lib p st e)) \<and> phase (bobRef (step lib p st e)) < 2 * pi"
proof (cases e)
  case (Tick delta)
  show ?thesis
  proof (cases "bodyRef st")
    case None
    with Tick assms show ?thesis by (simp add: tick_no_body)
  next
    case (Some body)
    with Tick assms bob_step_phase_range show ?thesis
      by (simp add: tick_phase)
  qed
next
  case (TeleportTo detail)
  with assms show ?thesis
    by (simp add: teleport_handler_def Let_def split: option.splits)
next
  case (ScriptedMove detail)
  with assms show ?thesis
    by (simp add: scripted_move_handler_def Let_def)
next
  case (World body cam inp)
  with assms show ?thesis by simp
qed

lemma run_Cons: "run lib p st (e # evs) = run lib p (step lib p st e) evs"
  by (simp add: run_def)

lemma run_Nil: "run lib p st [] = st"
  by (simp add: run_def)

lemma run_phase_range:
  "list_all tick_time_ok evs \<Longrightarrow> 0 \<le> phase (bobRef st) \<Longrightarrow> phase (bobRef st) < 2 * pi \<Longrightarrow>
   0 \<le> phase (bobRef (run lib p st evs)) \<and> phase (bobRef (run lib p st evs)) < 2 * pi"
proof (induction evs arbitrary: st)
  case Nil
  then show ?case by (simp add: run_Nil)
next
  case (Cons e evs)
  from Cons.prems have "tick_time_ok e" "list_all tick_time_ok evs"
    by simp_all
  with Cons.prems step_phase_range [of e st lib p] Cons.IH [of "step lib p st e"]
  show ?case
    by (simp add: run_Cons)
qed

text \<open>
  Claim C4.  Over any run of frames with non-negative frame time, with teleports, scripted
  moves and collaborator updates in between, a bob phase that starts in \<open>[0, 2\<pi>)\<close>
  stays there.  A frame advances the phase by \<open>cadenceHz * 2\<pi> * delta\<close>, wrapped by the
  remainder operator, exactly when bobbing is enabled, the smoothed intensity is above
  0.001 and the smoothed cadence is above 0.0001; otherwise, and when there is no body,
  the frame leaves the phase as it is.
\<close>

theorem bob_phase_wraps:
  assumes "list_all tick_time_ok evs"
    and "0 \<le> phase (bobRef st)" and "phase (bobRef st) < 2 * pi"
  shows "0 \<le> phase (bobRef (run lib p st evs))
       \<and> phase (bobRef (run lib p st evs)) < 2 * pi
       \<and> (\<forall>delta body. bodyRef (run lib p st evs) = Some body \<longrightarrow>
            phase (bobRef (fst (tick lib p delta (run lib p st evs)))) =
              (let now = run lib p st evs;
                   v = blended_velocity lib p delta now body;
                   intensity' = bob_intensity p delta (fst v) (snd v) (bobRef now);
                   cadenceHz = bob_stepHz p delta (fst v) (snd v) (bobRef now)
               in if bobEnabled p \<and> intensity' > 1 / 1000 \<and> cadenceHz > 1 / 10000
                  then js_rem (phase (bobRef now) + cadenceHz * 2 * pi * delta) (2 * pi)
                  else phase (bobRef now)))
       \<and> (\<forall>delta. bodyRef (run lib p st evs) = None \<longrightarrow>
            phase (bobRef (fst (tick lib p delta (run lib p st evs))))
              = phase (bobRef (run lib p st evs)))"
  using run_phase_range [OF assms]
  by (simp add: tick_phase bob_step_phase tick_no_body Let_def mult.commute)

theorem bob_phase_wraps_witness:
  "list_all tick_time_ok [Tick (1 / 10)]
   \<and> phase (bobRef late_phase_state) = 2 * pi - 1 / 10
   \<and> 2 * pi \<le> phase (bobRef late_phase_state) + (38 / 100) * 2 * pi * (1 / 10)
   \<and> phase (bobRef (run sample_three default_props late_phase_state [Tick (1 / 10)]))
       = 19 * pi / 250 - 1 / 10
   \<and> 0 \<le> phase (bobRef (run sample_three default_props late_phase_state [Tick (1 / 10)]))
   \<and> phase (bobRef (run sample_three default_props late_phase_state [Tick (1 / 10)])) < 2 * pi"
proof -
  let ?b = "\<lparr>phase = 2 * pi - 1 / 10, intensity = 1, smoothedHz = 4 / 5,
            smoothedVertical = 0, smoothedLateral = 0\<rparr> :: bob"
  have p2: "2 \<le> pi" by (rule pi_ge_two)
  have body: "bodyRef late_phase_state = Some mounted_body"
    by (simp add: late_phase_state_def mounted_state_def)
  have bob: "bobRef late_phase_state = ?b"
    by (simp add: late_phase_state_def)
  have v: "blended_velocity sample_three default_props (1 / 10) late_phase_state mounted_body
             = (0, 0)"
    by (simp add: blended_velocity_def frame_desired_def desired_velocity_def isMoving_def
        hasAxesMove_def getMoveAxes_def late_phase_state_def mounted_state_def
        unmounted_state_def idle_input_def mounted_body_def moveTowards_cases vec_def Let_def)
  have n: "normalized_speed default_props 0 0 = 0"
    by (simp add: normalized_speed_def js_hypot_def)
  have hz: "bob_stepHz default_props (1 / 10) 0 0 ?b = 38 / 100"
    by (simp add: bob_stepHz_def n Let_def) (simp add: default_props_def)
  have i: "bob_intensity default_props (1 / 10) 0 0 ?b = 2 / 10"
    by (simp add: bob_intensity_def n) (simp add: default_props_def)
  have e: "bobEnabled default_props"
    by (simp add: default_props_def)
  have r: "js_rem (519 * pi / 250 - 1 / 10) (2 * pi) = 19 * pi / 250 - 1 / 10"
    using p2 js_rem_once [of "2 * pi" "519 * pi / 250 - 1 / 10"]
    by simp
  have h: "0 \<le> phase (bobRef late_phase_state)" "phase (bobRef late_phase_state) < 2 * pi"
    using p2 by (simp_all add: bob)
  have l: "list_all tick_time_ok []" "list_all tick_time_ok [Tick (1 / 10)]"
    by simp_all
  note frame = bob_phase_wraps [OF l(1) h, of sample_three default_props,
      THEN conjunct2, THEN conjunct2, THEN conjunct1, rule_format,
      where delta = "1 / 10" and body = mounted_body]
  have t: "phase (bobRef (fst (tick sample_three default_props (1 / 10) late_phase_state)))
             = 19 * pi / 250 - 1 / 10"
    using frame body by (simp add: run_Nil Let_def v bob hz i e r)
  have w: "run sample_three default_props late_phase_state [Tick (1 / 10)]
             = fst (tick sample_three default_props (1 / 10) late_phase_state)"
    by (simp add: run_def)
  from bob_phase_wraps [OF l(2) h, of sample_three default_props] t p2
  show ?thesis
    by (simp add: w bob)
qed

section \<open>Footsteps\<close>

lemma crossed_after_advance:
  assumes "0 \<le> f" and "f < 2 * pi" and "0 \<le> a" and "a < pi"
  shows "crossed f (js_rem (f + a) (pi * 2)) 0 = (2 * pi \<le> f + a)"
    and "crossed f (js_rem (f + a) (pi * 2)) pi = (f < pi \<and> pi \<le> f + a)"
proof -
  have p: "0 < pi * 2" by simp
  show "crossed f (js_rem (f + a) (pi * 2)) 0 = (2 * pi \<le> f + a)"
  proof (cases "f + a < pi * 2")
    case True
    with assms have "js_rem (f + a) (pi * 2) = f + a"
      by (simp add: js_rem_small)
    with True assms show ?thesis
      by (simp add: crossed_def)
  next
    case False
    with assms have "js_rem (f + a) (pi * 2) = f + a - pi * 2"
      by (simp add: js_rem_once)
    with False assms show ?thesis
      by (simp add: crossed_def)
  qed
  show "crossed f (js_rem (f + a) (pi * 2)) pi = (f < pi \<and> pi \<le> f + a)"
  proof (cases "f + a < pi * 2")
    case True
    with assms have "js_rem (f + a) (pi * 2) = f + a"
      by (simp add: js_rem_small)
    with True assms show ?thesis
      by (auto simp add: crossed_def)
  next
    case False
    with assms have "js_rem (f + a) (pi * 2) = f + a - pi * 2"
      by (simp add: js_rem_once)
    with False assms show ?thesis
      by (auto simp add: crossed_def)
  qed
qed

lemma footsteps_after_advance:
  assumes "0 \<le> f" and "f < 2 * pi" and "0 \<le> a" and "a < pi"
  shows "footsteps f (js_rem (f + a) (pi * 2)) =
           (if 2 * pi \<le> f + a then [Right] else if f < pi \<and> pi \<le> f + a then [Left] else [])"
  using assms by (auto simp add: footsteps_def crossed_after_advance)

text \<open>
  Claim C5.  In a frame whose phase advance is below half a cycle, the footstep callback
  is never made for both feet: it is made for the right foot exactly when the phase wraps
  past \<open>2\<pi>\<close> (crosses 0), for the left foot exactly when the phase passes \<open>\<pi>\<close>, and
  not at all otherwise.  The crossing test covers the wrapped case, in which the previous
  phase is above the new one.
\<close>

theorem footsteps_one_per_frame:
  assumes "bodyRef st = Some body"
    and "0 \<le> phase (bobRef st)" and "phase (bobRef st) < 2 * pi"
    and "0 \<le> delta"
    and "bob_stepHz p delta (fst (blended_velocity lib p delta st body))
           (snd (blended_velocity lib p delta st body)) (bobRef st) * 2 * pi * delta < pi"
  shows "\<not> (Left \<in> set (snd (tick lib p delta st)) \<and> Right \<in> set (snd (tick lib p delta st)))
       \<and> snd (tick lib p delta st) =
           (let v = blended_velocity lib p delta st body;
                cadenceHz = bob_stepHz p delta (fst v) (snd v) (bobRef st);
                advancing = (bobEnabled p
                  \<and> bob_intensity p delta (fst v) (snd v) (bobRef st) > 1 / 1000
                  \<and> cadenceHz > 1 / 10000);
                unwrapped = phase (bobRef st) + cadenceHz * 2 * pi * delta
            in if advancing \<and> onFootstep p \<and> 2 * pi \<le> unwrapped then [Right]
               else if advancing \<and> onFootstep p \<and> phase (bobRef st) < pi \<and> pi \<le> unwrapped
               then [Left]
               else [])
       \<and> (\<forall>prev cur thr. crossed prev cur thr =
             (if prev \<le> cur then prev < thr \<and> thr \<le> cur else prev < thr \<or> thr \<le> cur))"
proof -
  let ?v = "blended_velocity lib p delta st body"
  let ?hz = "bob_stepHz p delta (fst ?v) (snd ?v) (bobRef st)"
  let ?adv = "bobEnabled p \<and> bob_intensity p delta (fst ?v) (snd ?v) (bobRef st) > 1 / 1000
                  \<and> ?hz > 1 / 10000"
  have feet: "snd (tick lib p delta st) =
      (if ?adv \<and> onFootstep p
       then footsteps (phase (bobRef st))
              (js_rem (phase (bobRef st) + ?hz * 2 * pi * delta) (pi * 2))
       else [])"
    using assms(1) by (simp add: tick_feet bob_step_feet)
  have cr: "crossed a b thr =
             (if a \<le> b then a < thr \<and> thr \<le> b else a < thr \<or> thr \<le> b)"
    for a b thr :: real
    by (auto simp add: crossed_def)
  show ?thesis
  proof (cases "?adv \<and> onFootstep p")
    case True
    then have "0 \<le> ?hz * 2 * pi * delta"
      using assms(4) by simp
    from footsteps_after_advance [OF assms(2) assms(3) this assms(5)] feet True cr
    show ?thesis
      by (simp add: Let_def)
  next
    case False
    with feet cr show ?thesis
      by (auto simp add: Let_def)
  qed
qed

section \<open>The scripted sequence timer\<close>

lemma advance_override_alive:
  assumes "0 \<le> delta" and "0 \<le> moveDelayLeft ov" and "delta < timeLeft ov"
  shows "advance_override delta ov =
           Some (ov\<lparr>moveDelayLeft := max 0 (moveDelayLeft ov - delta),
                     timeLeft := timeLeft ov - delta\<rparr>)"
proof (cases "moveDelayLeft ov > 0")
  case True
  with assms show ?thesis
    by (simp add: advance_override_def Let_def)
next
  case False
  with assms have z: "moveDelayLeft ov = 0" by simp
  then have "ov\<lparr>moveDelayLeft := 0\<rparr> = ov"
    by (cases ov) simp
  with z assms show ?thesis
    by (simp add: advance_override_def Let_def)
qed

lemma advance_override_done: "timeLeft ov \<le> delta \<Longrightarrow> advance_override delta ov = None"
  by (simp add: advance_override_def Let_def)

lemma step_frame_body:
  "frame_event e \<Longrightarrow> bodyRef st \<noteq> None \<Longrightarrow> bodyRef (step lib p st e) \<noteq> None"
  by (cases e) (auto simp add: tick_body)

lemma step_frame_override:
  "frame_event e \<Longrightarrow> bodyRef st \<noteq> None \<Longrightarrow>
   overrideRef (step lib p st e) =
     (case e of
        Tick delta \<Rightarrow>
          (case overrideRef st of None \<Rightarrow> None | Some cur \<Rightarrow> advance_override delta cur)
      | _ \<Rightarrow> overrideRef st)"
  by (cases e) (auto simp add: tick_override)

lemma step_frame_plc:
  "frame_event e \<Longrightarrow> bodyRef st \<noteq> None \<Longrightarrow>
   plcEnabled (step lib p st e) =
     (if overrideRef st \<noteq> None \<and> overrideRef (step lib p st e) = None then True
      else plcEnabled st)"
  by (cases e) (auto simp add: tick_def Let_def)

lemma elapsed_Cons:
  "elapsed (e # evs) = (case e of Tick delta \<Rightarrow> delta | _ \<Rightarrow> 0) + elapsed evs"
  by (simp add: elapsed_def)

lemma elapsed_nonneg: "list_all frame_event evs \<Longrightarrow> 0 \<le> elapsed evs"
proof (induction evs)
  case Nil
  then show ?case by (simp add: elapsed_def)
next
  case (Cons e evs)
  then show ?case
    by (cases e) (simp_all add: elapsed_Cons)
qed

lemma run_free:
  "list_all frame_event evs \<Longrightarrow> bodyRef st \<noteq> None \<Longrightarrow> overrideRef st = None \<Longrightarrow>
   overrideRef (run lib p st evs) = None \<and> plcEnabled (run lib p st evs) = plcEnabled st"
proof (induction evs arbitrary: st)
  case Nil
  then show ?case by (simp add: run_Nil)
next
  case (Cons e evs)
  from Cons.prems have e: "frame_event e" "list_all frame_event evs"
    by simp_all
  have o: "overrideRef (step lib p st e) = None"
    using e(1) Cons.prems(2,3) by (simp add: step_frame_override split: event.splits)
  have "plcEnabled (step lib p st e) = plcEnabled st"
    using e(1) Cons.prems(2,3) by (simp add: step_frame_plc)
  with Cons.IH [OF e(2) step_frame_body [OF e(1) Cons.prems(2)] o] show ?case
    by (simp add: run_Cons)
qed

lemma run_override:
  "list_all frame_event evs \<Longrightarrow> bodyRef st \<noteq> None \<Longrightarrow> overrideRef st = Some ov \<Longrightarrow>
   0 < timeLeft ov \<Longrightarrow> 0 \<le> moveDelayLeft ov \<Longrightarrow>
   (elapsed evs < timeLeft ov \<longrightarrow>
      overrideRef (run lib p st evs) =
        Some (ov\<lparr>moveDelayLeft := max 0 (moveDelayLeft ov - elapsed evs),
                  timeLeft := timeLeft ov - elapsed evs\<rparr>))
   \<and> (timeLeft ov \<le> elapsed evs \<longrightarrow>
      overrideRef (run lib p st evs) = None \<and> plcEnabled (run lib p st evs))"
proof (induction evs arbitrary: st ov)
  case Nil
  have "ov\<lparr>moveDelayLeft := moveDelayLeft ov, timeLeft := timeLeft ov\<rparr> = ov"
    by (cases ov) simp
  with Nil show ?case
    by (simp add: run_Nil elapsed_def max_def)
next
  case (Cons e evs)
  from Cons.prems have e: "frame_event e" "list_all frame_event evs"
    by simp_all
  note body' = step_frame_body [OF e(1) Cons.prems(2), of lib p]
  note rest = elapsed_nonneg [OF e(2)]
  show ?case
  proof (cases e)
    case (Tick delta)
    with e have d: "0 \<le> delta" by simp
    have so: "overrideRef (step lib p st e) = advance_override delta ov"
      using step_frame_override [OF e(1) Cons.prems(2), of lib p] Tick Cons.prems(3)
      by simp
    show ?thesis
    proof (cases "delta < timeLeft ov")
      case True
      let ?ov = "ov\<lparr>moveDelayLeft := max 0 (moveDelayLeft ov - delta),
                     timeLeft := timeLeft ov - delta\<rparr>"
      have o: "overrideRef (step lib p st e) = Some ?ov"
        using so advance_override_alive [OF d Cons.prems(5) True] by simp
      have m: "max 0 (max 0 (moveDelayLeft ov - delta) - elapsed evs)
                = max 0 (moveDelayLeft ov - (delta + elapsed evs))"
        using rest by (simp add: max_def)
      from Cons.IH [OF e(2) body' o] True Tick m show ?thesis
        by (simp add: run_Cons elapsed_Cons algebra_simps)
    next
      case False
      have o: "overrideRef (step lib p st e) = None"
        using so False by (simp add: advance_override_done)
      have "plcEnabled (step lib p st e)"
        using step_frame_plc [OF e(1) Cons.prems(2), of lib p] Cons.prems(3) o by simp
      with run_free [OF e(2) body' o] False Tick rest show ?thesis
        by (simp add: run_Cons elapsed_Cons)
    qed
  next
    case (TeleportTo detail)
    with e show ?thesis by simp
  next
    case (ScriptedMove detail)
    with e show ?thesis by simp
  next
    case (World body cam inp)
    have o: "overrideRef (step lib p st e) = Some ov"
      using World Cons.prems by simp
    from Cons.IH [OF e(2) body' o] Cons.prems World show ?thesis
      by (simp add: run_Cons elapsed_Cons)
  qed
qed

lemma lengthSq_normalize:
  assumes "0 < lengthSq a"
  shows "lengthSq (normalize a) = 1"
proof -
  let ?l = "sqrt (lengthSq a)"
  have l: "?l * ?l = lengthSq a" "?l \<noteq> 0"
    using assms by simp_all
  have "lengthSq (normalize a)
          = vx a / ?l * (vx a / ?l) + vy a / ?l * (vy a / ?l) + vz a / ?l * (vz a / ?l)"
    using l(2) by (simp add: normalize_def vlength_def vec_def Let_def lengthSq_def [of "\<lparr>vx = _, vy = _, vz = _\<rparr>"])
  also have "\<dots> = (vx a * vx a + vy a * vy a + vz a * vz a) / (?l * ?l)"
    by (simp add: add_divide_distrib)
  also have "\<dots> = lengthSq a / lengthSq a"
    using l(1) by (simp add: lengthSq_def)
  finally show ?thesis
    using assms by simp
qed

lemma normalize_unit: "lengthSq a = 1 \<Longrightarrow> normalize a = a"
  by (simp add: normalize_def vlength_def vec_def)

lemma flat_view_dir_unit:
  "lengthSq (flat_view_dir lib cam) = 1 \<and> vy (flat_view_dir lib cam) = 0"
proof -
  define d0 where "d0 = set_y (getWorldDirection lib cam) 0"
  define d1 where "d1 = (if lengthSq d0 < 1 / 1000000 then vec 0 0 (- 1) else d0)"
  have f: "flat_view_dir lib cam = normalize d1"
    by (simp add: flat_view_dir_def d0_def d1_def Let_def)
  have "0 < lengthSq d1" "vy d1 = 0"
    by (auto simp add: d1_def d0_def lengthSq_def vec_def set_y_def)
  then show ?thesis
    by (simp add: f lengthSq_normalize) (simp add: normalize_def vec_def Let_def)
qed

lemma scripted_move_override:
  "overrideRef (scripted_move_handler lib (Some scenario_move) st) =
     Some \<lparr>timeLeft = 22 / 10, duration = 22 / 10, speed = (24 / 10) / (22 / 10),
           dir = flat_view_dir lib (camera st), lockLook = True, lookAt = Some (vec 5 0 0),
           lookSlerp = Some (25 / 10), moveDelayLeft = 35 / 100\<rparr>"
  by (simp add: scripted_move_handler_def scenario_move_def opt_chain_def nullish_def Let_def)

lemma frame_desired_delay:
  "overrideRef st = Some ov \<Longrightarrow> 0 < moveDelayLeft ov \<Longrightarrow> frame_desired lib p st = (0, 0)"
  by (simp add: frame_desired_def desired_velocity_def isMoving_def canMove_def Let_def)

lemma frame_desired_moving:
  assumes "overrideRef st = Some ov" and "moveDelayLeft ov \<le> 0" and "lengthSq (dir ov) = 1"
  shows "frame_desired lib p st = (vx (dir ov) * speed ov, vz (dir ov) * speed ov)"
proof -
  have "vadd (vec 0 0 0) (dir ov) = dir ov"
    by (simp add: vadd_def vec_def)
  with assms show ?thesis
    by (simp add: frame_desired_def desired_velocity_def isMoving_def canMove_def Let_def
        move_dir_def normalize_unit)
qed

lemma hypot_scaled:
  assumes "a * a + b * b = 1" and "0 \<le> s"
  shows "js_hypot (a * s) (b * s) = s"
proof -
  have "a * s * (a * s) + b * s * (b * s) = (a * a + b * b) * (s * s)"
    by (simp add: algebra_simps)
  with assms show ?thesis
    by (simp add: js_hypot_def)
qed

lemma tick_camera_override:
  assumes "bodyRef st = Some body" and "overrideRef (fst (tick lib p delta st)) \<noteq> None"
  shows "camera (fst (tick lib p delta st)) =
           (look_phase lib delta (overrideRef st) (camera st))
             \<lparr>cam_position := cam_position (camera (fst (tick lib p delta st)))\<rparr>"
proof -
  have "(case overrideRef st of None \<Rightarrow> None | Some cur \<Rightarrow> advance_override delta cur) \<noteq> None"
    using assms by (simp add: tick_override)
  then obtain left where
    "(case overrideRef st of None \<Rightarrow> None | Some cur \<Rightarrow> advance_override delta cur) = Some left"
    by auto
  with assms(1) show ?thesis
    by (simp add: tick_def Let_def touch_look_def place_camera_def)
qed

lemma advance_override_Some: "delta < timeLeft ov \<Longrightarrow> advance_override delta ov \<noteq> None"
  by (simp add: advance_override_def Let_def)

lemma flat_view_dir_eq:
  "flat_view_dir lib cam =
     (let g = getWorldDirection lib cam;
          h = vx g * vx g + vz g * vz g
      in if h < 1 / 1000000 then vec 0 0 (- 1) else vec (vx g / sqrt h) 0 (vz g / sqrt h))"
proof -
  define g where "g = getWorldDirection lib cam"
  define h where "h = vx g * vx g + vz g * vz g"
  have ls: "lengthSq (set_y g 0) = h"
    by (simp add: lengthSq_def set_y_def h_def)
  have f: "flat_view_dir lib cam =
      normalize (if h < 1 / 1000000 then vec 0 0 (- 1) else set_y g 0)"
    by (simp only: flat_view_dir_def Let_def g_def ls [unfolded g_def])
  have main: "flat_view_dir lib cam =
      (if h < 1 / 1000000 then vec 0 0 (- 1) else vec (vx g / sqrt h) 0 (vz g / sqrt h))"
  proof (cases "h < 1 / 1000000")
    case True
    have "normalize (vec 0 0 (- 1)) = vec 0 0 (- 1)"
      by (simp add: normalize_def vlength_def lengthSq_def Let_def vec_def)
    with True show ?thesis
      by (simp only: f if_True)
  next
    case False
    then have "sqrt h \<noteq> 0"
      by simp
    then have "normalize (set_y g 0) = vec (vx g / sqrt h) 0 (vz g / sqrt h)"
      by (simp add: normalize_def vlength_def ls Let_def) (simp add: vec_def set_y_def)
    with False show ?thesis
      by (simp only: f if_False)
  qed
  from main show ?thesis
    by (simp only: Let_def g_def h_def)
qed

text \<open>
  Claim C6.  After the scripted move of the scenario has begun, over frames with
  non-negative frame time and a body that stays mounted, with \<open>elapsed\<close> the frame
  time of the frames completed so far: below 0.35 s \<open>canMove\<close> is false, the desired
  velocity is zero, and the next frame commands zero horizontal velocity and leaves the
  camera turned toward \<open>[5, 0, 0]\<close> at rate 2.5 (the camera that the slerp returns, put
  at the eye position); from 0.35 s and below 2.2 s \<open>canMove\<close> is true, the desired
  velocity is the captured flattened view direction times \<open>2.4 / 2.2\<close>, of that
  magnitude, the next frame commands the blend toward it and no longer turns the camera;
  from 2.2 s the override is gone and the pointer-lock controls are enabled again.  The
  captured direction is the view direction at the request, flattened and normalised,
  \<open>-Z\<close> when its flat part is almost zero.
\<close>

theorem scripted_move_scenario:
  assumes "list_all frame_event evs" and "bodyRef st \<noteq> None"
  shows
    "(elapsed evs < 35 / 100 \<longrightarrow>
        \<not> canMove (overrideRef (run lib p (scripted_move_handler lib (Some scenario_move) st) evs))
        \<and> frame_desired lib p (run lib p (scripted_move_handler lib (Some scenario_move) st) evs)
            = (0, 0)
        \<and> (\<forall>delta body.
             bodyRef (run lib p (scripted_move_handler lib (Some scenario_move) st) evs) = Some body
             \<longrightarrow> bodyRef (fst (tick lib p delta
                    (run lib p (scripted_move_handler lib (Some scenario_move) st) evs)))
                 = Some (body\<lparr>linvel := vec 0 (vy (linvel body)) 0\<rparr>))
        \<and> (\<forall>delta cam.
             look_phase lib delta
               (overrideRef (run lib p (scripted_move_handler lib (Some scenario_move) st) evs)) cam
             = slerpLookAt lib cam (vec 5 0 0) (min 1 (max 0 (25 / 10 * delta))))
        \<and> (\<forall>delta body.
             bodyRef (run lib p (scripted_move_handler lib (Some scenario_move) st) evs) = Some body \<and> delta < 22 / 10 - elapsed evs
             \<longrightarrow> camera (fst (tick lib p delta (run lib p (scripted_move_handler lib (Some scenario_move) st) evs)))
                 = (slerpLookAt lib (camera (run lib p (scripted_move_handler lib (Some scenario_move) st) evs)) (vec 5 0 0) (min 1 (max 0 (25 / 10 * delta))))
                     \<lparr>cam_position := cam_position (camera (fst (tick lib p delta (run lib p (scripted_move_handler lib (Some scenario_move) st) evs))))\<rparr>))
   \<and> (35 / 100 \<le> elapsed evs \<and> elapsed evs < 22 / 10 \<longrightarrow>
        canMove (overrideRef (run lib p (scripted_move_handler lib (Some scenario_move) st) evs))
        \<and> frame_desired lib p (run lib p (scripted_move_handler lib (Some scenario_move) st) evs)
            = (vx (flat_view_dir lib (camera st)) * ((24 / 10) / (22 / 10)),
               vz (flat_view_dir lib (camera st)) * ((24 / 10) / (22 / 10)))
        \<and> js_hypot
             (fst (frame_desired lib p
                    (run lib p (scripted_move_handler lib (Some scenario_move) st) evs)))
             (snd (frame_desired lib p
                    (run lib p (scripted_move_handler lib (Some scenario_move) st) evs)))
            = (24 / 10) / (22 / 10)
        \<and> (\<forall>delta cam.
             look_phase lib delta
               (overrideRef (run lib p (scripted_move_handler lib (Some scenario_move) st) evs)) cam
             = cam)
        \<and> (\<forall>delta body.
             bodyRef (run lib p (scripted_move_handler lib (Some scenario_move) st) evs) = Some body
             \<longrightarrow> bodyRef (fst (tick lib p delta (run lib p (scripted_move_handler lib (Some scenario_move) st) evs)))
                 = Some (body\<lparr>linvel :=
                     vec (moveTowards (acceleration p) (deceleration p) delta (vx (linvel body))
                            (vx (flat_view_dir lib (camera st)) * ((24 / 10) / (22 / 10))))
                         (vy (linvel body))
                         (moveTowards (acceleration p) (deceleration p) delta (vz (linvel body))
                            (vz (flat_view_dir lib (camera st)) * ((24 / 10) / (22 / 10))))\<rparr>))
        \<and> (\<forall>delta body.
             bodyRef (run lib p (scripted_move_handler lib (Some scenario_move) st) evs) = Some body \<and> delta < 22 / 10 - elapsed evs
             \<longrightarrow> camera (fst (tick lib p delta (run lib p (scripted_move_handler lib (Some scenario_move) st) evs)))
                 = (camera (run lib p (scripted_move_handler lib (Some scenario_move) st) evs))
                     \<lparr>cam_position := cam_position (camera (fst (tick lib p delta (run lib p (scripted_move_handler lib (Some scenario_move) st) evs))))\<rparr>))
   \<and> (22 / 10 \<le> elapsed evs \<longrightarrow>
        overrideRef (run lib p (scripted_move_handler lib (Some scenario_move) st) evs) = None
        \<and> plcEnabled (run lib p (scripted_move_handler lib (Some scenario_move) st) evs))
   \<and> flat_view_dir lib (camera st) =
        (let g = getWorldDirection lib (camera st);
             h = vx g * vx g + vz g * vz g
         in if h < 1 / 1000000 then vec 0 0 (- 1) else vec (vx g / sqrt h) 0 (vz g / sqrt h))"
  (is "(_ \<longrightarrow> ?A) \<and> (_ \<longrightarrow> ?B) \<and> (_ \<longrightarrow> ?C) \<and> ?F")
proof -
  let ?st0 = "scripted_move_handler lib (Some scenario_move) st"
  let ?now = "run lib p ?st0 evs"
  let ?c = "flat_view_dir lib (camera st)"
  let ?begun = "\<lparr>timeLeft = 22 / 10, duration = 22 / 10, speed = (24 / 10) / (22 / 10),
           dir = ?c, lockLook = True, lookAt = Some (vec 5 0 0),
           lookSlerp = Some (25 / 10), moveDelayLeft = 35 / 100\<rparr> :: override"
  let ?cur = "?begun\<lparr>moveDelayLeft := max 0 (35 / 100 - elapsed evs),
                  timeLeft := 22 / 10 - elapsed evs\<rparr>"
  have F: ?F
    by (rule flat_view_dir_eq)
  have b0: "bodyRef ?st0 \<noteq> None"
    using assms(2) by (simp add: scripted_move_handler_def Let_def)
  have o0: "overrideRef ?st0 = Some ?begun"
    by (rule scripted_move_override)
  have ro: "(elapsed evs < 22 / 10 \<longrightarrow> overrideRef ?now = Some ?cur)
   \<and> (22 / 10 \<le> elapsed evs \<longrightarrow> overrideRef ?now = None \<and> plcEnabled ?now)"
    using run_override [OF assms(1) b0 o0] by simp
  have unit: "lengthSq ?c = 1" "vy ?c = 0"
    using flat_view_dir_unit [of lib "camera st"] by simp_all
  then have xz: "vx ?c * vx ?c + vz ?c * vz ?c = 1"
    by (simp add: lengthSq_def)
  have alive: "overrideRef (fst (tick lib p delta ?now)) \<noteq> None"
    if "overrideRef ?now = Some ?cur" "bodyRef ?now = Some body" "delta < 22 / 10 - elapsed evs"
    for delta body
    using that advance_override_Some [of delta ?cur] by (simp add: tick_override)
  consider "elapsed evs < 35 / 100"
    | "35 / 100 \<le> elapsed evs" "elapsed evs < 22 / 10"
    | "22 / 10 \<le> elapsed evs"
    by linarith
  then show ?thesis
  proof cases
    case 1
    have o: "overrideRef ?now = Some ?cur"
      using ro 1 by simp
    have m: "0 < moveDelayLeft ?cur"
      using 1 by simp
    have a1: "\<not> canMove (overrideRef ?now)"
      using o m by (simp add: canMove_def)
    have a2: "frame_desired lib p ?now = (0, 0)"
      using o m by (rule frame_desired_delay)
    have a3: "\<forall>delta body. bodyRef ?now = Some body \<longrightarrow>
        bodyRef (fst (tick lib p delta ?now)) = Some (body\<lparr>linvel := vec 0 (vy (linvel body)) 0\<rparr>)"
      using o a1 by (simp add: tick_body command_velocity_def Let_def)
    have a4: "\<forall>delta cam. look_phase lib delta (overrideRef ?now) cam
             = slerpLookAt lib cam (vec 5 0 0) (min 1 (max 0 (25 / 10 * delta)))"
      using o a1 by (simp add: look_phase_def nullish_def)
    have a5: "\<forall>delta body. bodyRef ?now = Some body \<and> delta < 22 / 10 - elapsed evs \<longrightarrow>
        camera (fst (tick lib p delta ?now))
          = (slerpLookAt lib (camera ?now) (vec 5 0 0) (min 1 (max 0 (25 / 10 * delta))))
              \<lparr>cam_position := cam_position (camera (fst (tick lib p delta ?now)))\<rparr>"
    proof (intro allI impI, elim conjE)
      fix delta body
      assume b: "bodyRef ?now = Some body" and d: "delta < 22 / 10 - elapsed evs"
      from tick_camera_override [OF b alive [OF o b d]] a4
      show "camera (fst (tick lib p delta ?now))
          = (slerpLookAt lib (camera ?now) (vec 5 0 0) (min 1 (max 0 (25 / 10 * delta))))
              \<lparr>cam_position := cam_position (camera (fst (tick lib p delta ?now)))\<rparr>"
        by (simp only:)
    qed
    have A: ?A
      using a1 a2 a3 a4 a5 by (intro conjI)
    have "\<not> (35 / 100 \<le> elapsed evs \<and> elapsed evs < 22 / 10)" "\<not> 22 / 10 \<le> elapsed evs"
      using 1 by simp_all
    with A F show ?thesis
      by blast
  next
    case 2
    have o: "overrideRef ?now = Some ?cur"
      using ro 2 by simp
    have m: "moveDelayLeft ?cur \<le> 0"
      using 2 by simp
    have b1: "canMove (overrideRef ?now)"
      using o m by (simp add: canMove_def)
    have b2: "frame_desired lib p ?now
        = (vx ?c * ((24 / 10) / (22 / 10)), vz ?c * ((24 / 10) / (22 / 10)))"
      using frame_desired_moving [OF o m, of lib p] unit by simp
    have b3: "js_hypot (fst (frame_desired lib p ?now)) (snd (frame_desired lib p ?now))
               = (24 / 10) / (22 / 10)"
      unfolding b2 fst_conv snd_conv by (rule hypot_scaled [OF xz]) simp
    have b4: "\<forall>delta cam. look_phase lib delta (overrideRef ?now) cam = cam"
      using o b1 by (simp add: look_phase_def)
    have b5: "\<forall>delta body. bodyRef ?now = Some body \<longrightarrow>
        bodyRef (fst (tick lib p delta ?now))
          = Some (body\<lparr>linvel :=
              vec (moveTowards (acceleration p) (deceleration p) delta (vx (linvel body))
                     (vx ?c * ((24 / 10) / (22 / 10))))
                  (vy (linvel body))
                  (moveTowards (acceleration p) (deceleration p) delta (vz (linvel body))
                     (vz ?c * ((24 / 10) / (22 / 10))))\<rparr>)"
      using o b1 by (simp add: tick_body command_velocity_def blended_velocity_def b2 Let_def)
    have b6: "\<forall>delta body. bodyRef ?now = Some body \<and> delta < 22 / 10 - elapsed evs \<longrightarrow>
        camera (fst (tick lib p delta ?now))
          = (camera ?now)\<lparr>cam_position := cam_position (camera (fst (tick lib p delta ?now)))\<rparr>"
    proof (intro allI impI, elim conjE)
      fix delta body
      assume b: "bodyRef ?now = Some body" and d: "delta < 22 / 10 - elapsed evs"
      from tick_camera_override [OF b alive [OF o b d]] b4
      show "camera (fst (tick lib p delta ?now))
          = (camera ?now)\<lparr>cam_position := cam_position (camera (fst (tick lib p delta ?now)))\<rparr>"
        by (simp only:)
    qed
    have B: ?B
      using b1 b2 b3 b4 b5 b6 by (intro conjI)
    have "\<not> elapsed evs < 35 / 100" "\<not> 22 / 10 \<le> elapsed evs"
      using 2 by simp_all
    with B F show ?thesis
      by blast
  next
    case 3
    have C: ?C
      using ro 3 by simp
    have "\<not> elapsed evs < 35 / 100" "\<not> (35 / 100 \<le> elapsed evs \<and> elapsed evs < 22 / 10)"
      using 3 by simp_all
    with C F show ?thesis
      by blast
  qed
qed

theorem footsteps_one_per_frame_witness:
  "snd (tick sample_three default_props (1 / 10)
         (mounted_state\<lparr>bobRef := \<lparr>phase = pi - 1 / 10, intensity = 1, smoothedHz = 4 / 5,
            smoothedVertical = 0, smoothedLateral = 0\<rparr>\<rparr>)) = [Left]"
proof -
  let ?b = "\<lparr>phase = pi - 1 / 10, intensity = 1, smoothedHz = 4 / 5,
            smoothedVertical = 0, smoothedLateral = 0\<rparr> :: bob"
  let ?st = "mounted_state\<lparr>bobRef := ?b\<rparr>"
  have body: "bodyRef ?st = Some mounted_body"
    by (simp add: mounted_state_def)
  have v: "blended_velocity sample_three default_props (1 / 10) ?st mounted_body = (0, 0)"
    by (simp add: blended_velocity_def frame_desired_def desired_velocity_def isMoving_def
        hasAxesMove_def getMoveAxes_def mounted_state_def unmounted_state_def idle_input_def
        mounted_body_def moveTowards_cases vec_def Let_def)
  have n: "normalized_speed default_props 0 0 = 0"
    by (simp add: normalized_speed_def js_hypot_def)
  have hz: "bob_stepHz default_props (1 / 10) 0 0 ?b = 38 / 100"
    by (simp add: bob_stepHz_def n Let_def) (simp add: default_props_def)
  have i: "bob_intensity default_props (1 / 10) 0 0 ?b = 2 / 10"
    by (simp add: bob_intensity_def n) (simp add: default_props_def)
  have p3: "2 \<le> pi" by (rule pi_ge_two)
  have h1: "0 \<le> phase (bobRef ?st)" "phase (bobRef ?st) < 2 * pi"
    using p3 by simp_all
  have h2: "bob_stepHz default_props (1 / 10)
           (fst (blended_velocity sample_three default_props (1 / 10) ?st mounted_body))
           (snd (blended_velocity sample_three default_props (1 / 10) ?st mounted_body))
           (bobRef ?st) * 2 * pi * (1 / 10) < pi"
    using p3 by (simp add: v hz)
  have e: "bobEnabled default_props" "onFootstep default_props"
    by (simp_all add: default_props_def)
  from footsteps_one_per_frame [OF body h1 _ h2] v hz i e p3 show ?thesis
    by (simp add: Let_def)
qed

lemma turning_flat_view_dir: "flat_view_dir turning_three canvas_camera = vec 0 0 (- 1)"
  by (simp add: flat_view_dir_eq turning_three_def yaw_direction_def canvas_camera_def Let_def)
    (simp add: vec_def)

theorem scripted_move_scenario_witness:
  "list_all frame_event [Tick (1 / 10), Tick (3 / 10)]
   \<and> bodyRef mounted_state \<noteq> None
   \<and> rotation_y (camera mounted_state) = 0
   \<and> rotation_y (camera (fst (tick turning_three default_props (1 / 10)
         (scripted_move_handler turning_three (Some scenario_move) mounted_state)))) = - (pi / 16)
   \<and> \<not> canMove (overrideRef (run turning_three default_props
         (scripted_move_handler turning_three (Some scenario_move) mounted_state) [Tick (1 / 10)]))
   \<and> canMove (overrideRef (run turning_three default_props
         (scripted_move_handler turning_three (Some scenario_move) mounted_state)
         [Tick (1 / 10), Tick (3 / 10)]))
   \<and> frame_desired turning_three default_props (run turning_three default_props
         (scripted_move_handler turning_three (Some scenario_move) mounted_state)
         [Tick (1 / 10), Tick (3 / 10)]) = (0, - (12 / 11))
   \<and> overrideRef (run turning_three default_props
         (scripted_move_handler turning_three (Some scenario_move) mounted_state)
         [Tick 1, Tick 1, Tick 1]) = None"
proof -
  let ?st0 = "scripted_move_handler turning_three (Some scenario_move) mounted_state"
  have b: "bodyRef mounted_state \<noteq> None"
    by (simp add: mounted_state_def)
  have b0: "bodyRef ?st0 = Some mounted_body"
    by (simp add: scripted_move_handler_def Let_def mounted_state_def)
  have c0: "camera ?st0 = canvas_camera" "camera mounted_state = canvas_camera"
    by (simp_all add: scripted_move_handler_def Let_def mounted_state_def unmounted_state_def)
  have turn: "rotation_y (yaw_turn canvas_camera (vec 5 0 0) (1 / 4)) = - (pi / 16)"
    by (simp add: yaw_turn_def canvas_camera_def vec_def js_atan2_def arctan_minus arctan_one)
  have sl: "slerpLookAt turning_three = yaw_turn"
    by (simp add: turning_three_def)
  have l0: "list_all frame_event []"
    by simp
  have e0: "elapsed [] < 35 / 100" "1 / 10 < 22 / 10 - elapsed []"
    by (simp_all add: elapsed_def)
  have n0: "bodyRef (run turning_three default_props ?st0 []) = Some mounted_body"
    by (simp add: run_Nil b0)
  note delay = scripted_move_scenario [OF l0 b, of turning_three default_props,
      THEN conjunct1, THEN mp, OF e0(1)]
  note turned = delay [THEN conjunct2, THEN conjunct2, THEN conjunct2, THEN conjunct2,
      THEN spec, THEN spec, THEN mp, OF conjI, OF n0 e0(2)]
  have "rotation_y (camera (fst (tick turning_three default_props (1 / 10)
            (run turning_three default_props ?st0 []))))
          = rotation_y ((slerpLookAt turning_three
              (camera (run turning_three default_props ?st0 [])) (vec 5 0 0)
              (min 1 (max 0 (25 / 10 * (1 / 10)))))
              \<lparr>cam_position := cam_position (camera (fst (tick turning_three default_props
                 (1 / 10) (run turning_three default_props ?st0 []))))\<rparr>)"
    using turned by (rule arg_cong)
  then have r: "rotation_y (camera (fst (tick turning_three default_props (1 / 10) ?st0)))
          = - (pi / 16)"
    by (simp add: run_Nil c0 sl turn)
  from scripted_move_scenario [of "[Tick (1 / 10)]" mounted_state turning_three default_props]
    scripted_move_scenario [of "[Tick (1 / 10), Tick (3 / 10)]" mounted_state turning_three
      default_props]
    scripted_move_scenario [of "[Tick 1, Tick 1, Tick 1]" mounted_state turning_three
      default_props]
    b
  have "\<not> canMove (overrideRef (run turning_three default_props ?st0 [Tick (1 / 10)]))"
    "canMove (overrideRef (run turning_three default_props ?st0 [Tick (1 / 10), Tick (3 / 10)]))"
    "frame_desired turning_three default_props
       (run turning_three default_props ?st0 [Tick (1 / 10), Tick (3 / 10)])
       = (vx (flat_view_dir turning_three (camera mounted_state)) * ((24 / 10) / (22 / 10)),
          vz (flat_view_dir turning_three (camera mounted_state)) * ((24 / 10) / (22 / 10)))"
    "overrideRef (run turning_three default_props ?st0 [Tick 1, Tick 1, Tick 1]) = None"
    by (simp_all add: elapsed_def)
  with r b show ?thesis
    by (simp add: c0 turning_flat_view_dir vec_def) (simp add: canvas_camera_def)
qed

section \<open>Requests without a body\<close>

text \<open>
  The scripted-move handler does not look at the body handle: without a body it still
  installs its override.
\<close>

theorem scripted_move_without_body_counterexample:
  "bodyRef unmounted_state = None
   \<and> scripted_move_handler sample_three None unmounted_state \<noteq> unmounted_state"
proof -
  have "overrideRef (scripted_move_handler sample_three None unmounted_state) \<noteq> None"
    by (simp add: scripted_move_handler_def Let_def)
  moreover have "overrideRef unmounted_state = None"
    by (simp add: unmounted_state_def)
  ultimately have "scripted_move_handler sample_three None unmounted_state \<noteq> unmounted_state"
    by auto
  then show ?thesis
    by (simp add: unmounted_state_def)
qed

text \<open>
  Claim C9, amended.  Without a body handle a teleport request changes nothing.  A
  scripted-move request is handled all the same: it installs the override, disables the
  pointer-lock controls when the look is locked and zeroes the movement axes, and leaves
  everything else as it is; the frames are no-ops for as long as the body is absent, so
  the override waits unchanged.
\<close>

theorem requests_without_body:
  assumes "bodyRef st = None"
  shows "teleport_handler tdetail st = st
       \<and> overrideRef (scripted_move_handler lib mdetail st) \<noteq> None
       \<and> scripted_move_handler lib mdetail st =
           st\<lparr>overrideRef := overrideRef (scripted_move_handler lib mdetail st),
              plcEnabled := (plcEnabled st \<and> nullish (opt_chain mdetail d_lockLook) True = False),
              inputStore := (inputStore st)\<lparr>axes_x := 0, axes_y := 0\<rparr>\<rparr>
       \<and> tick lib p delta (scripted_move_handler lib mdetail st)
           = (scripted_move_handler lib mdetail st, [])"
proof -
  have "bodyRef (scripted_move_handler lib mdetail st) = None"
    using assms by (simp add: scripted_move_handler_def Let_def)
  then have "tick lib p delta (scripted_move_handler lib mdetail st)
           = (scripted_move_handler lib mdetail st, [])"
    by (rule tick_no_body)
  then show ?thesis
    using assms
    by (simp add: teleport_handler_def) (simp add: scripted_move_handler_def Let_def setMoveAxes_def)
qed

theorem requests_without_body_witness:
  "bodyRef unmounted_state = None
   \<and> teleport_handler (Some scenario_teleport) unmounted_state = unmounted_state
   \<and> overrideRef (scripted_move_handler sample_three (Some scenario_move) unmounted_state) \<noteq> None"
  using requests_without_body [of unmounted_state "Some scenario_teleport" sample_three
      "Some scenario_move" default_props 0]
  by (simp add: unmounted_state_def)


section \<open>The matrix inverse\<close>

text \<open>
  The adjugate times the matrix is the determinant times the identity, so \<open>invert\<close> is
  the inverse whenever the determinant is not zero.
\<close>

lemma adj_row1_col1:
  "adj11 m * n11 m + adj12 m * n21 m + adj13 m * n31 m + adj14 m * n41 m = determinant m"
  by (simp add: adj11_def adj12_def adj13_def adj14_def determinant_def adj11_def adj12_def adj13_def adj14_def algebra_simps)

lemma adj_row1_col2:
  "adj11 m * n12 m + adj12 m * n22 m + adj13 m * n32 m + adj14 m * n42 m = 0"
  by (simp add: adj11_def adj12_def adj13_def adj14_def algebra_simps)

lemma adj_row1_col3:
  "adj11 m * n13 m + adj12 m * n23 m + adj13 m * n33 m + adj14 m * n43 m = 0"
  by (simp add: adj11_def adj12_def adj13_def adj14_def algebra_simps)

lemma adj_row1_col4:
  "adj11 m * n14 m + adj12 m * n24 m + adj13 m * n34 m + adj14 m * n44 m = 0"
  by (simp add: adj11_def adj12_def adj13_def adj14_def algebra_simps)

lemma adj_row2_col1:
  "adj21 m * n11 m + adj22 m * n21 m + adj23 m * n31 m + adj24 m * n41 m = 0"
  by (simp add: adj21_def adj22_def adj23_def adj24_def algebra_simps)

lemma adj_row2_col2:
  "adj21 m * n12 m + adj22 m * n22 m + adj23 m * n32 m + adj24 m * n42 m = determinant m"
  by (simp add: adj21_def adj22_def adj23_def adj24_def determinant_def adj11_def adj12_def adj13_def adj14_def algebra_simps)

lemma adj_row2_col3:
  "adj21 m * n13 m + adj22 m * n23 m + adj23 m * n33 m + adj24 m * n43 m = 0"
  by (simp add: adj21_def adj22_def adj23_def adj24_def algebra_simps)

lemma adj_row2_col4:
  "adj21 m * n14 m + adj22 m * n24 m + adj23 m * n34 m + adj24 m * n44 m = 0"
  by (simp add: adj21_def adj22_def adj23_def adj24_def algebra_simps)

lemma adj_row3_col1:
  "adj31 m * n11 m + adj32 m * n21 m + adj33 m * n31 m + adj34 m * n41 m = 0"
  by (simp add: adj31_def adj32_def adj33_def adj34_def algebra_simps)

lemma adj_row3_col2:
  "adj31 m * n12 m + adj32 m * n22 m + adj33 m * n32 m + adj34 m * n42 m = 0"
  by (simp add: adj31_def adj32_def adj33_def adj34_def algebra_simps)

lemma adj_row3_col3:
  "adj31 m * n13 m + adj32 m * n23 m + adj33 m * n33 m + adj34 m * n43 m = determinant m"
  by (simp add: adj31_def adj32_def adj33_def adj34_def determinant_def adj11_def adj12_def adj13_def adj14_def algebra_simps)

lemma adj_row3_col4:
  "adj31 m * n14 m + adj32 m * n24 m + adj33 m * n34 m + adj34 m * n44 m = 0"
  by (simp add: adj31_def adj32_def adj33_def adj34_def algebra_simps)

lemma adj_row4_col1:
  "adj41 m * n11 m + adj42 m * n21 m + adj43 m * n31 m + adj44 m * n41 m = 0"
  by (simp add: adj41_def adj42_def adj43_def adj44_def algebra_simps)

lemma adj_row4_col2:
  "adj41 m * n12 m + adj42 m * n22 m + adj43 m * n32 m + adj44 m * n42 m = 0"
  by (simp add: adj41_def adj42_def adj43_def adj44_def algebra_simps)

lemma adj_row4_col3:
  "adj41 m * n13 m + adj42 m * n23 m + adj43 m * n33 m + adj44 m * n43 m = 0"
  by (simp add: adj41_def adj42_def adj43_def adj44_def algebra_simps)

lemma adj_row4_col4:
  "adj41 m * n14 m + adj42 m * n24 m + adj43 m * n34 m + adj44 m * n44 m = determinant m"
  by (simp add: adj41_def adj42_def adj43_def adj44_def determinant_def adj11_def adj12_def adj13_def adj14_def algebra_simps)

lemma scaled_row:
  "a * k * x + b * k * y + c * k * z + d * k * w = (a * x + b * y + c * z + d * w) * (k::real)"
  by (simp add: algebra_simps)

lemma invert_left:
  assumes "determinant m \<noteq> 0"
  shows "multiply4 (invert m) m = identity4"
proof -
  let ?k = "1 / determinant m"
  have k: "determinant m * ?k = 1"
    using assms by simp
  have inv: "invert m =
      \<lparr>n11 = adj11 m * ?k, n12 = adj12 m * ?k, n13 = adj13 m * ?k, n14 = adj14 m * ?k,
       n21 = adj21 m * ?k, n22 = adj22 m * ?k, n23 = adj23 m * ?k, n24 = adj24 m * ?k,
       n31 = adj31 m * ?k, n32 = adj32 m * ?k, n33 = adj33 m * ?k, n34 = adj34 m * ?k,
       n41 = adj41 m * ?k, n42 = adj42 m * ?k, n43 = adj43 m * ?k, n44 = adj44 m * ?k\<rparr>"
    using assms by (simp add: invert_def Let_def)
  show ?thesis
    unfolding inv multiply4_def identity4_def matrix4.simps scaled_row
      adj_row1_col1 adj_row1_col2 adj_row1_col3 adj_row1_col4
      adj_row2_col1 adj_row2_col2 adj_row2_col3 adj_row2_col4
      adj_row3_col1 adj_row3_col2 adj_row3_col3 adj_row3_col4
      adj_row4_col1 adj_row4_col2 adj_row4_col3 adj_row4_col4 k
    by simp
qed

section \<open>The door teleport\<close>

lemma tryDoorEndTeleport_success:
  assumes "tryDoorEndTeleport pos hook = Inr (True, hook', effs)"
  shows "\<exists>doorEnd doorStart playerLocal targetWorld.
           doorEndRef hook = Some doorEnd \<and> doorStartRef hook = Some doorStart
         \<and> distanceTo (getWorldPosition doorEnd) pos \<le> 1
         \<and> applyMatrix4 pos (invert (matrixWorld doorEnd)) = Some playerLocal
         \<and> applyMatrix4 (vec (vx playerLocal) 0 (vz playerLocal)) (matrixWorld doorStart)
             = Some targetWorld
         \<and> hook' = fst (openStartDoor True hook)
         \<and> effs =
             DispatchTeleport
               (Some \<lparr>d_x = Some (vx targetWorld + 8 / 10), d_y = None,
                       d_z = Some (vz targetWorld), d_keepY = Some True,
                       d_yaw = Some (door_facing_yaw doorStart playerLocal)\<rparr>)
             # snd (openStartDoor True hook)"
  using assms
  by (auto simp add: tryDoorEndTeleport_def Let_def split: option.splits if_splits)

lemma openStartDoor_effects:
  "doorStartRef hook = Some doorStart \<Longrightarrow>
   snd (openStartDoor True hook) =
     [PlayDoorOpen,
      DispatchScriptedMove
        (Some \<lparr>d_durationSec = Some (22 / 10), d_distance = Some (24 / 10),
                d_lockLook = Some True,
                d_lookAt = Some (vx (getWorldPosition doorStart) - 10,
                                 vy (getWorldPosition doorStart), vz (getWorldPosition doorStart)),
                d_lookSlerp = Some (25 / 10), d_moveDelaySec = Some (35 / 100)\<rparr>),
      SetTimeout CloseDoor 3200]"
  by (simp add: openStartDoor_def Let_def)

lemma scripted_move_keeps:
  "bodyRef (scripted_move_handler lib detail st) = bodyRef st"
  "camera (scripted_move_handler lib detail st) = camera st"
  by (simp_all add: scripted_move_handler_def Let_def)

lemma deliver_portal:
  "doorStartRef hook = Some doorStart \<Longrightarrow>
   bodyRef (deliver lib st (DispatchTeleport detail # snd (openStartDoor True hook)))
     = bodyRef (teleport_handler detail st)
   \<and> camera (deliver lib st (DispatchTeleport detail # snd (openStartDoor True hook)))
     = camera (teleport_handler detail st)"
  by (simp add: openStartDoor_effects deliver_def scripted_move_keeps)

lemma look_dir_cases:
  assumes "0 \<le> d"
  shows "normalize (set_y (vsub s (vsub s (vec d 0 0))) 0) = (if d = 0 then vec 0 0 0 else vec 1 0 0)"
proof -
  have v: "set_y (vsub s (vsub s (vec d 0 0))) 0 = vec d 0 0"
    by (simp add: vsub_def vec_def set_y_def)
  have l: "vlength (vec d 0 0) = d"
    using assms by (simp add: vlength_def lengthSq_def vec_def)
  show ?thesis
    unfolding v by (simp add: normalize_def l Let_def) (simp add: vec_def)
qed

lemma js_hypot_nonneg: "0 \<le> js_hypot a b"
  by (simp add: js_hypot_def)

lemma js_atan2_axis: "js_atan2 1 0 = pi / 2" "js_atan2 0 0 = 0"
  by (simp_all add: js_atan2_def)

text \<open>
  Claim C7, amended.  When the door teleport goes through and the controller has a body,
  the camera position is taken into the end door's local frame by the inverse of its
  world matrix, its vertical coordinate is set to zero, and the result is taken to the
  world by the start door's matrix; the body is then at that point's \<open>x\<close> plus 0.8, at
  that point's \<open>z\<close>, and at the height it had.
\<close>

theorem portal_target:
  assumes "tryDoorEndTeleport (cam_position (camera st)) hook = Inr (True, hook', effs)"
    and "bodyRef st = Some body"
  shows "\<exists>doorEnd doorStart playerLocal targetWorld.
           doorEndRef hook = Some doorEnd \<and> doorStartRef hook = Some doorStart
         \<and> applyMatrix4 (cam_position (camera st)) (invert (matrixWorld doorEnd))
             = Some playerLocal
         \<and> applyMatrix4 (vec (vx playerLocal) 0 (vz playerLocal)) (matrixWorld doorStart)
             = Some targetWorld
         \<and> map_option translation (bodyRef (deliver lib st effs))
             = Some (vec (vx targetWorld + 8 / 10) (vy (translation body)) (vz targetWorld))"
proof -
  from tryDoorEndTeleport_success [OF assms(1)]
  obtain doorEnd doorStart playerLocal targetWorld where all:
    "doorEndRef hook = Some doorEnd \<and> doorStartRef hook = Some doorStart
         \<and> distanceTo (getWorldPosition doorEnd) (cam_position (camera st)) \<le> 1
         \<and> applyMatrix4 (cam_position (camera st)) (invert (matrixWorld doorEnd))
             = Some playerLocal
         \<and> applyMatrix4 (vec (vx playerLocal) 0 (vz playerLocal)) (matrixWorld doorStart)
             = Some targetWorld
         \<and> hook' = fst (openStartDoor True hook)
         \<and> effs =
             DispatchTeleport
               (Some \<lparr>d_x = Some (vx targetWorld + 8 / 10), d_y = None,
                       d_z = Some (vz targetWorld), d_keepY = Some True,
                       d_yaw = Some (door_facing_yaw doorStart playerLocal)\<rparr>)
             # snd (openStartDoor True hook)"
    by (elim exE) (rule that)
  from all have d: "doorEndRef hook = Some doorEnd" "doorStartRef hook = Some doorStart"
    and a: "applyMatrix4 (cam_position (camera st)) (invert (matrixWorld doorEnd))
             = Some playerLocal"
      "applyMatrix4 (vec (vx playerLocal) 0 (vz playerLocal)) (matrixWorld doorStart)
             = Some targetWorld"
    and e: "effs = DispatchTeleport
               (Some \<lparr>d_x = Some (vx targetWorld + 8 / 10), d_y = None,
                       d_z = Some (vz targetWorld), d_keepY = Some True,
                       d_yaw = Some (door_facing_yaw doorStart playerLocal)\<rparr>)
             # snd (openStartDoor True hook)"
    by simp_all
  have "map_option translation (bodyRef (deliver lib st effs))
             = Some (vec (vx targetWorld + 8 / 10) (vy (translation body)) (vz targetWorld))"
    unfolding e using deliver_portal [OF d(2)] assms(2)
    by (simp add: teleport_handler_body opt_chain_def nullish_def)
  with d a show ?thesis
    by blast
qed

lemma door_look_dir_cases:
  "door_look_dir doorStart playerLocal =
     (if js_hypot (vx playerLocal) (vz playerLocal) = 0 then vec 0 0 0 else vec 1 0 0)"
  using look_dir_cases [OF js_hypot_nonneg, of "getWorldPosition doorStart"
      "vx playerLocal" "vz playerLocal"]
  by (simp add: door_look_dir_def Let_def)

lemma door_facing_yaw_cases:
  "door_facing_yaw doorStart playerLocal =
     (if js_hypot (vx playerLocal) (vz playerLocal) = 0 then 0 else pi / 2)"
  by (simp add: door_facing_yaw_def door_look_dir_cases Let_def) (simp add: vec_def js_atan2_axis)

text \<open>
  Claim C8, amended.  When the door teleport goes through and the controller has a body,
  the yaw sent with the teleport, which becomes the camera's yaw, is \<open>atan2(dx, dz)\<close> of
  the flattened, normalised direction from the point behind the start door, offset along
  \<open>x\<close> by the player's planar distance from the end door in that door's frame, toward
  the start door.  That direction is \<open>+x\<close> and the yaw \<open>\<pi>/2\<close> unless the distance is
  zero; then the direction is the zero vector, which normalising leaves as it is, and the
  yaw sent is 0: the current yaw is not kept.
\<close>

theorem portal_yaw:
  assumes "tryDoorEndTeleport (cam_position (camera st)) hook = Inr (True, hook', effs)"
    and "bodyRef st = Some body"
  shows "\<exists>doorEnd doorStart playerLocal.
           doorEndRef hook = Some doorEnd \<and> doorStartRef hook = Some doorStart
         \<and> applyMatrix4 (cam_position (camera st)) (invert (matrixWorld doorEnd))
             = Some playerLocal
         \<and> (\<exists>detail. hd effs = DispatchTeleport (Some detail)
               \<and> d_yaw detail = Some (door_facing_yaw doorStart playerLocal))
         \<and> rotation_y (camera (deliver lib st effs)) = door_facing_yaw doorStart playerLocal
         \<and> door_facing_yaw doorStart playerLocal =
             (let d = js_hypot (vx playerLocal) (vz playerLocal);
                  startPos = getWorldPosition doorStart;
                  behind = vsub startPos (vec d 0 0);
                  lookDir = normalize (set_y (vsub startPos behind) 0)
              in js_atan2 (vx lookDir) (vz lookDir))
         \<and> door_look_dir doorStart playerLocal =
             (if js_hypot (vx playerLocal) (vz playerLocal) = 0 then vec 0 0 0 else vec 1 0 0)
         \<and> door_facing_yaw doorStart playerLocal =
             (if js_hypot (vx playerLocal) (vz playerLocal) = 0 then 0 else pi / 2)"
proof -
  from tryDoorEndTeleport_success [OF assms(1)]
  obtain doorEnd doorStart playerLocal targetWorld where all:
    "doorEndRef hook = Some doorEnd \<and> doorStartRef hook = Some doorStart
         \<and> distanceTo (getWorldPosition doorEnd) (cam_position (camera st)) \<le> 1
         \<and> applyMatrix4 (cam_position (camera st)) (invert (matrixWorld doorEnd))
             = Some playerLocal
         \<and> applyMatrix4 (vec (vx playerLocal) 0 (vz playerLocal)) (matrixWorld doorStart)
             = Some targetWorld
         \<and> hook' = fst (openStartDoor True hook)
         \<and> effs =
             DispatchTeleport
               (Some \<lparr>d_x = Some (vx targetWorld + 8 / 10), d_y = None,
                       d_z = Some (vz targetWorld), d_keepY = Some True,
                       d_yaw = Some (door_facing_yaw doorStart playerLocal)\<rparr>)
             # snd (openStartDoor True hook)"
    by (elim exE) (rule that)
  from all have d: "doorEndRef hook = Some doorEnd" "doorStartRef hook = Some doorStart"
    and a: "applyMatrix4 (cam_position (camera st)) (invert (matrixWorld doorEnd))
             = Some playerLocal"
      "applyMatrix4 (vec (vx playerLocal) 0 (vz playerLocal)) (matrixWorld doorStart)
             = Some targetWorld"
    and e: "effs = DispatchTeleport
               (Some \<lparr>d_x = Some (vx targetWorld + 8 / 10), d_y = None,
                       d_z = Some (vz targetWorld), d_keepY = Some True,
                       d_yaw = Some (door_facing_yaw doorStart playerLocal)\<rparr>)
             # snd (openStartDoor True hook)"
    by simp_all
  have 1: "\<exists>detail. hd effs = DispatchTeleport (Some detail)
               \<and> d_yaw detail = Some (door_facing_yaw doorStart playerLocal)"
    unfolding e by simp
  have 2: "rotation_y (camera (deliver lib st effs)) = door_facing_yaw doorStart playerLocal"
    unfolding e using deliver_portal [OF d(2)] assms(2)
    by (simp add: teleport_handler_camera opt_chain_def)
  have 3: "door_facing_yaw doorStart playerLocal =
             (let d = js_hypot (vx playerLocal) (vz playerLocal);
                  startPos = getWorldPosition doorStart;
                  behind = vsub startPos (vec d 0 0);
                  lookDir = normalize (set_y (vsub startPos behind) 0)
              in js_atan2 (vx lookDir) (vz lookDir))"
    by (simp add: door_facing_yaw_def door_look_dir_def Let_def)
  from d a(1) 1 2 3 door_look_dir_cases door_facing_yaw_cases show ?thesis
    by blast
qed

section \<open>The door teleport at the sample hook\<close>

lemma vec_sel: "vx (vec a b c) = a" "vy (vec a b c) = b" "vz (vec a b c) = c"
  by (simp_all add: vec_def)

lemma at_door_camera:
  "cam_position (camera at_door_state) = vec 0 0 0"
  "rotation_y (camera at_door_state) = 1"
  by (simp_all add: at_door_state_def)

lemma determinant_identity4: "determinant identity4 = 1"
  by (simp add: determinant_def identity4_def adj11_def adj12_def adj13_def adj14_def)

lemma invert_identity4: "invert identity4 = identity4"
proof -
  have "multiply4 (invert identity4) identity4 = identity4"
    by (rule invert_left) (simp add: determinant_identity4)
  moreover have "multiply4 a identity4 = a" for a
    by (simp add: multiply4_def identity4_def)
  ultimately show ?thesis
    by simp
qed

lemma applyMatrix4_identity4: "applyMatrix4 v identity4 = Some (vec (vx v) (vy v) (vz v))"
  by (simp add: applyMatrix4_def identity4_def Let_def)

lemma sample_tryDoorEndTeleport:
  "tryDoorEndTeleport (cam_position (camera at_door_state)) sample_hook =
     Inr (True, sample_hook\<lparr>targetYRef := - (pi / 2), openingRef := True\<rparr>,
          sample_portal_effects)"
proof -
  have c: "cam_position (camera at_door_state) = vec 0 0 0"
    by (simp add: at_door_state_def)
  have p: "getWorldPosition identity_door = vec 0 0 0"
    by (simp add: getWorldPosition_def identity_door_def identity4_def)
  have d: "distanceTo (vec 0 0 0) (vec 0 0 0) = 0"
    by (simp add: distanceTo_def vlength_def lengthSq_def vsub_def vec_def)
  have y: "door_facing_yaw identity_door (vec 0 0 0) = 0"
    by (simp add: door_facing_yaw_cases js_hypot_def vec_sel)
  have m: "matrixWorld identity_door = identity4"
    by (simp add: identity_door_def)
  have o: "openStartDoor True sample_hook =
      (sample_hook\<lparr>targetYRef := - (pi / 2), openingRef := True\<rparr>, tl sample_portal_effects)"
    by (simp add: openStartDoor_def sample_hook_def Let_def p sample_portal_effects_def vec_sel)
  have r: "doorEndRef sample_hook = Some identity_door" "doorStartRef sample_hook = Some identity_door"
    by (simp_all add: sample_hook_def)
  show ?thesis
    unfolding c
    by (simp add: tryDoorEndTeleport_def r Let_def p d m invert_identity4 applyMatrix4_identity4
        vec_sel y o sample_portal_effects_def)
qed

lemma sample_deliver:
  "bodyRef (deliver sample_three at_door_state sample_portal_effects)
     = Some \<lparr>translation = vec (8 / 10) 0 0, linvel = vec 0 0 0\<rparr>"
  "rotation_y (camera (deliver sample_three at_door_state sample_portal_effects)) = 0"
  by (simp_all add: deliver_def sample_portal_effects_def scripted_move_keeps
      teleport_handler_def at_door_state_def mounted_state_def unmounted_state_def
      mounted_body_def opt_chain_def nullish_def Let_def vec_def)

text \<open>
  With both doors at the origin and the camera at the origin the mapped point is the
  origin, and the body is put 0.8 beside it.
\<close>

theorem portal_target_counterexample:
  "tryDoorEndTeleport (cam_position (camera at_door_state)) sample_hook =
     Inr (True, sample_hook\<lparr>targetYRef := - (pi / 2), openingRef := True\<rparr>,
          sample_portal_effects)
   \<and> applyMatrix4 (cam_position (camera at_door_state)) (invert (matrixWorld identity_door))
       = Some (vec 0 0 0)
   \<and> applyMatrix4 (vec 0 0 0) (matrixWorld identity_door) = Some (vec 0 0 0)
   \<and> map_option translation (bodyRef (deliver sample_three at_door_state sample_portal_effects))
       = Some (vec (8 / 10) 0 0)
   \<and> vec (8 / 10) 0 0 \<noteq> vec 0 0 0"
proof -
  have "vec (8 / 10) 0 0 \<noteq> vec 0 0 0"
    by (simp add: vec_def)
  then show ?thesis
    by (simp add: sample_tryDoorEndTeleport [unfolded at_door_camera] sample_deliver
        identity_door_def invert_identity4 applyMatrix4_identity4 at_door_camera vec_sel)
qed

theorem portal_target_witness:
  "bodyRef at_door_state = Some mounted_body
   \<and> (\<exists>doorEnd doorStart playerLocal targetWorld.
         doorEndRef sample_hook = Some doorEnd \<and> doorStartRef sample_hook = Some doorStart
       \<and> applyMatrix4 (cam_position (camera at_door_state)) (invert (matrixWorld doorEnd))
           = Some playerLocal
       \<and> applyMatrix4 (vec (vx playerLocal) 0 (vz playerLocal)) (matrixWorld doorStart)
           = Some targetWorld
       \<and> map_option translation (bodyRef (deliver sample_three at_door_state sample_portal_effects))
           = Some (vec (vx targetWorld + 8 / 10) (vy (translation mounted_body)) (vz targetWorld)))"
proof -
  have b: "bodyRef at_door_state = Some mounted_body"
    by (simp add: at_door_state_def mounted_state_def)
  from portal_target [OF sample_tryDoorEndTeleport b, of sample_three] b show ?thesis
    by simp
qed

text \<open>
  At the same input the look direction has length zero; the camera's yaw was 1 and is 0
  after the teleport.
\<close>

theorem portal_yaw_counterexample:
  "tryDoorEndTeleport (cam_position (camera at_door_state)) sample_hook =
     Inr (True, sample_hook\<lparr>targetYRef := - (pi / 2), openingRef := True\<rparr>,
          sample_portal_effects)
   \<and> applyMatrix4 (cam_position (camera at_door_state)) (invert (matrixWorld identity_door))
       = Some (vec 0 0 0)
   \<and> door_look_dir identity_door (vec 0 0 0) = vec 0 0 0
   \<and> rotation_y (camera at_door_state) = 1
   \<and> rotation_y (camera (deliver sample_three at_door_state sample_portal_effects)) = 0"
  by (simp add: sample_tryDoorEndTeleport [unfolded at_door_camera] sample_deliver
      identity_door_def invert_identity4 applyMatrix4_identity4 at_door_camera
      door_look_dir_cases vec_sel js_hypot_def)

theorem portal_yaw_witness:
  "bodyRef at_door_state = Some mounted_body
   \<and> rotation_y (camera (deliver sample_three at_door_state sample_portal_effects)) = 0"
proof -
  have b: "bodyRef at_door_state = Some mounted_body"
    by (simp add: at_door_state_def mounted_state_def)
  from portal_yaw [OF sample_tryDoorEndTeleport b, of sample_three] b show ?thesis
    by (auto simp add: sample_deliver)
qed

end
